theory Spec2Isabelle
  imports Complex_Main "HOL-Library.Log_Nat" "HOL-Library.Monad_Syntax" "HOL-Library.Sublist"
begin

section \<open>The values of the Python runtime\<close>

subsection \<open>Floats: IEEE 754 binary64, round to nearest, ties to even\<close>

text \<open>
  A Python \<open>float\<close> is a binary64 double. \<open>Finite s m e\<close> is the double
  \<open>(-1)^s * m * 2^e\<close> in its canonical form: \<open>m < 2^53\<close>, \<open>-1074 \<le> e \<le> 971\<close>, and
  \<open>2^52 \<le> m\<close> unless \<open>e = -1074\<close> (zero and the subnormals). The sign of a zero is kept.
\<close>

datatype pyfloat = Finite bool nat int | Infinity bool | NaN

datatype py_exn =
  TypeError | KeyError | IndexError | AttributeError | ValueError
  | OverflowError | ZeroDivisionError

definition rne_div :: "int \<Rightarrow> int \<Rightarrow> int" where
  \<comment> \<open>the integer nearest to \<open>n / d\<close>, a tie going to the even neighbour\<close>
  "rne_div n d =
     (let q = n div d; r = n mod d
      in if 2 * r < d then q
         else if d < 2 * r then q + 1
         else if even q then q else q + 1)"

definition floor_log2 :: "int \<Rightarrow> int \<Rightarrow> int" where
  \<comment> \<open>the integer \<open>l\<close> with \<open>2^l \<le> n / d < 2^(l + 1)\<close>, for positive \<open>n\<close> and \<open>d\<close>\<close>
  "floor_log2 n d =
     (let l = bitlen n - bitlen d
      in if d * 2 ^ nat l \<le> n * 2 ^ nat (- l) then l else l - 1)"

definition float_exponent :: "int \<Rightarrow> int \<Rightarrow> int" where
  \<comment> \<open>the exponent of the 53-bit significand of \<open>n / d\<close>, not below that of the subnormals\<close>
  "float_exponent n d = max (floor_log2 n d - 52) (- 1074)"

definition round_to_float :: "bool \<Rightarrow> int \<Rightarrow> int \<Rightarrow> pyfloat" where
  \<comment> \<open>the double nearest to \<open>(-1)^s * n / d\<close>, for \<open>0 \<le> n\<close> and \<open>0 < d\<close>\<close>
  "round_to_float s n d =
     (if n = 0 then Finite s 0 (- 1074)
      else
        let e = float_exponent n d;
            m = rne_div (n * 2 ^ nat (- e)) (d * 2 ^ nat e);
            e' = (if m = 2 ^ 53 then e + 1 else e);
            m' = (if m = 2 ^ 53 then 2 ^ 52 else m)
        in if 971 < e' then Infinity s else Finite s (nat m') e')"

fun float_mul :: "pyfloat \<Rightarrow> pyfloat \<Rightarrow> pyfloat" where
  "float_mul NaN y = NaN"
| "float_mul x NaN = NaN"
| "float_mul (Infinity s) (Infinity t) = Infinity (s \<noteq> t)"
| "float_mul (Infinity s) (Finite t m e) = (if m = 0 then NaN else Infinity (s \<noteq> t))"
| "float_mul (Finite s m e) (Infinity t) = (if m = 0 then NaN else Infinity (s \<noteq> t))"
| "float_mul (Finite s m e) (Finite t k f) =
     round_to_float (s \<noteq> t) (int m * int k * 2 ^ nat (e + f)) (2 ^ nat (- (e + f)))"

fun float_truediv :: "pyfloat \<Rightarrow> pyfloat \<Rightarrow> py_exn + pyfloat" where
  "float_truediv (Finite s m e) (Finite t k f) =
     (if k = 0 then Inl ZeroDivisionError
      else Inr (round_to_float (s \<noteq> t) (int m * 2 ^ nat (e - f)) (int k * 2 ^ nat (f - e))))"
| "float_truediv (Infinity s) (Finite t k f) =
     (if k = 0 then Inl ZeroDivisionError else Inr (Infinity (s \<noteq> t)))"
| "float_truediv NaN (Finite t k f) = (if k = 0 then Inl ZeroDivisionError else Inr NaN)"
| "float_truediv NaN y = Inr NaN"
| "float_truediv x NaN = Inr NaN"
| "float_truediv (Infinity s) (Infinity t) = Inr NaN"
| "float_truediv (Finite s m e) (Infinity t) = Inr (Finite (s \<noteq> t) 0 (- 1074))"

definition int_to_float :: "int \<Rightarrow> py_exn + pyfloat" where
  \<comment> \<open>the conversion of an \<open>int\<close> operand of a float operation\<close>
  "int_to_float i =
     (case round_to_float (i < 0) \<bar>i\<bar> 1 of
        Infinity s \<Rightarrow> Inl OverflowError
      | x \<Rightarrow> Inr x)"

definition int_truediv :: "int \<Rightarrow> int \<Rightarrow> py_exn + pyfloat" where
  \<comment> \<open>\<open>a / b\<close> on two \<open>int\<close>s: the correctly rounded quotient\<close>
  "int_truediv a b =
     (if b = 0 then Inl ZeroDivisionError
      else case round_to_float ((a < 0) \<noteq> (b < 0)) \<bar>a\<bar> \<bar>b\<bar> of
        Infinity s \<Rightarrow> Inl OverflowError
      | x \<Rightarrow> Inr x)"

fun py_round :: "pyfloat \<Rightarrow> py_exn + int" where
  \<comment> \<open>\<open>round(x)\<close> with one argument: an \<open>int\<close>, halves to the even neighbour\<close>
  "py_round NaN = Inl ValueError"
| "py_round (Infinity s) = Inl OverflowError"
| "py_round (Finite s m e) =
     (let n = rne_div (int m * 2 ^ nat e) (2 ^ nat (- e))
      in Inr (if s then - n else n))"

definition float_lit :: "int \<Rightarrow> int \<Rightarrow> pyfloat" where
  \<comment> \<open>a positive decimal literal \<open>n / d\<close> of the source text\<close>
  "float_lit n d = round_to_float False n d"


subsection \<open>JSON values and the operations the service applies to them\<close>

text \<open>
  What \<open>response.json()\<close> and \<open>request.json\<close> hand to the program: \<open>None\<close>, \<open>bool\<close>,
  \<open>int\<close>, \<open>float\<close>, \<open>str\<close>, \<open>list\<close> and \<open>dict\<close> with string keys (in insertion order).
  A \<open>str\<close> is held as its UTF-8 bytes; Python indexes and iterates it by code point, so
  \<open>codepoints\<close> cuts the bytes into characters: a byte from \<open>0x80\<close> to \<open>0xBF\<close> continues
  the character before it.
\<close>

datatype json =
  JNull | JBool bool | JInt int | JFloat pyfloat | JStr string
  | JList "json list" | JObj "(string \<times> json) list"

definition is_continuation :: "char \<Rightarrow> bool" where
  "is_continuation c = (128 \<le> (of_char c :: nat) \<and> (of_char c :: nat) < 192)"

fun group_utf8 :: "string \<Rightarrow> string \<Rightarrow> string list" where
  \<comment> \<open>the characters of the bytes read so far (\<open>cur\<close>) followed by the remaining bytes\<close>
  "group_utf8 cur [] = (if cur = [] then [] else [cur])"
| "group_utf8 cur (c # cs) =
     (if cur = [] then group_utf8 [c] cs
      else if is_continuation c then group_utf8 (cur @ [c]) cs
      else cur # group_utf8 [c] cs)"

definition codepoints :: "string \<Rightarrow> string list" where
  "codepoints s = group_utf8 [] s"

fun py_truthy :: "json \<Rightarrow> bool" where
  "py_truthy JNull = False"
| "py_truthy (JBool b) = b"
| "py_truthy (JInt i) = (i \<noteq> 0)"
| "py_truthy (JFloat (Finite s m e)) = (m \<noteq> 0)"
| "py_truthy (JFloat x) = True"
| "py_truthy (JStr s) = (s \<noteq> [])"
| "py_truthy (JList xs) = (xs \<noteq> [])"
| "py_truthy (JObj kvs) = (kvs \<noteq> [])"

fun getitem_key :: "json \<Rightarrow> string \<Rightarrow> py_exn + json" where
  \<comment> \<open>\<open>x[k]\<close> for a string \<open>k\<close>\<close>
  "getitem_key (JObj kvs) k = (case map_of kvs k of None \<Rightarrow> Inl KeyError | Some v \<Rightarrow> Inr v)"
| "getitem_key x k = Inl TypeError"

fun getitem_index :: "json \<Rightarrow> nat \<Rightarrow> py_exn + json" where
  \<comment> \<open>\<open>x[i]\<close> for an index \<open>i \<ge> 0\<close>; a \<open>dict\<close> of string keys has no key \<open>i\<close>\<close>
  "getitem_index (JList xs) i = (if i < length xs then Inr (xs ! i) else Inl IndexError)"
| "getitem_index (JStr s) i =
     (if i < length (codepoints s) then Inr (JStr (codepoints s ! i)) else Inl IndexError)"
| "getitem_index (JObj kvs) i = Inl KeyError"
| "getitem_index x i = Inl TypeError"

fun dict_get :: "json \<Rightarrow> string \<Rightarrow> json \<Rightarrow> py_exn + json" where
  \<comment> \<open>\<open>x.get(k, default)\<close>; only a \<open>dict\<close> has the method\<close>
  "dict_get (JObj kvs) k dflt = (case map_of kvs k of None \<Rightarrow> Inr dflt | Some v \<Rightarrow> Inr v)"
| "dict_get x k dflt = Inl AttributeError"

fun py_in :: "string \<Rightarrow> json \<Rightarrow> py_exn + bool" where
  \<comment> \<open>\<open>k in x\<close> for a string \<open>k\<close>: a key of a \<open>dict\<close>, an element of a \<open>list\<close>,
      a substring of a \<open>str\<close>\<close>
  "py_in k (JObj kvs) = Inr (k \<in> set (map fst kvs))"
| "py_in k (JList xs) = Inr (JStr k \<in> set xs)"
| "py_in k (JStr s) = Inr (sublist k s)"
| "py_in k x = Inl TypeError"

fun py_iter :: "json \<Rightarrow> py_exn + json list" where
  \<comment> \<open>the items a \<open>for\<close> loop over \<open>x\<close> visits\<close>
  "py_iter (JList xs) = Inr xs"
| "py_iter (JObj kvs) = Inr (map (\<lambda>kv. JStr (fst kv)) kvs)"
| "py_iter (JStr s) = Inr (map JStr (codepoints s))"
| "py_iter x = Inl TypeError"

fun py_truediv :: "json \<Rightarrow> int \<Rightarrow> py_exn + pyfloat" where
  \<comment> \<open>\<open>x / k\<close> for an \<open>int\<close> literal \<open>k\<close>; a \<open>bool\<close> counts as the \<open>int\<close> 0 or 1\<close>
  "py_truediv (JInt i) k = int_truediv i k"
| "py_truediv (JBool b) k = int_truediv (if b then 1 else 0) k"
| "py_truediv (JFloat x) k =
     (case int_to_float k of Inl err \<Rightarrow> Inl err | Inr y \<Rightarrow> float_truediv x y)"
| "py_truediv x k = Inl TypeError"

definition int_mul_float :: "int \<Rightarrow> pyfloat \<Rightarrow> py_exn + pyfloat" where
  \<comment> \<open>\<open>i * x\<close> for an \<open>int\<close> \<open>i\<close> and a \<open>float\<close> \<open>x\<close>\<close>
  "int_mul_float i x =
     (case int_to_float i of Inl err \<Rightarrow> Inl err | Inr y \<Rightarrow> Inr (float_mul y x))"

definition caught :: "py_exn + 'a \<Rightarrow> 'a option" where
  \<comment> \<open>inside \<open>try: ... except Exception: return None\<close> an exception only ends the body\<close>
  "caught r = (case r of Inl err \<Rightarrow> None | Inr x \<Rightarrow> Some x)"


section \<open>The upstream services\<close>

text \<open>
  An HTTP exchange either raises inside \<open>requests\<close> (\<open>None\<close>) or yields a response with a
  status code and a body; \<open>json_body\<close> is \<open>None\<close> when \<open>response.json()\<close> raises.
  A world fixes what every upstream service answers to every request the program can send;
  each service is keyed by the parts of the request that vary. The last three fields are
  the text primitives of the runtime: \<open>str()\<close> as an f-string applies it, the \<open>.2f\<close> format
  of a \<open>float\<close>, and \<open>str.strip\<close>.
\<close>

record http_response =
  status_code :: int
  json_body :: "json option"

record world =
  ors_directions :: "json \<Rightarrow> json \<Rightarrow> http_response option"
    \<comment> \<open>POST to openrouteservice: the \<open>Authorization\<close> header, the JSON payload\<close>
  eia_prices :: "json \<Rightarrow> http_response option"
    \<comment> \<open>GET from EIA: the \<open>api_key\<close> of the URL\<close>
  carbon_estimates :: "json \<Rightarrow> json \<Rightarrow> http_response option"
    \<comment> \<open>POST to Carbon Interface: the bearer key, the JSON payload\<close>
  openweathermap :: "string \<Rightarrow> json \<Rightarrow> http_response option"
    \<comment> \<open>GET from OpenWeatherMap: the \<open>q\<close> and the \<open>appid\<close> of the URL\<close>
  chat_completion :: "json \<Rightarrow> string \<Rightarrow> json option"
    \<comment> \<open>\<open>openai.ChatCompletion.create\<close>: the API key, the user prompt; \<open>None\<close> when it raises\<close>
  str_of :: "json \<Rightarrow> string"
  format_2f :: "pyfloat \<Rightarrow> string"
  strip :: "string \<Rightarrow> string"

section \<open>The adapters\<close>

record energy_data =
  price_per_gallon :: json
  period :: json

record emissions_data =
  carbon_g :: json
  carbon_kg :: pyfloat

record weather_data =
  temperature :: json
  weather :: json
  wind_speed :: json

record route_data =
  distance_km :: pyfloat
  duration_minutes :: int
  coordinates :: "json list"
  directions :: "json list"
  emissions :: "emissions_data option"
    \<comment> \<open>the key \<open>"emissions"\<close>, absent until the orchestrator attaches it\<close>

definition get_energy_data :: "world \<Rightarrow> json \<Rightarrow> energy_data option" where
  "get_energy_data w EIA_API_KEY =
     do {
       response \<leftarrow> eia_prices w EIA_API_KEY;
       if status_code response = 200 then
         do {
           data \<leftarrow> json_body response;
           series \<leftarrow> caught (getitem_key data ''response'');
           rows \<leftarrow> caught (getitem_key series ''data'');
           latest_data \<leftarrow> caught (getitem_index rows 0);
           price \<leftarrow> caught (getitem_key latest_data ''value'');
           per \<leftarrow> caught (getitem_key latest_data ''period'');
           Some \<lparr>price_per_gallon = price, period = per\<rparr>
         }
       else None
     }"

definition calculate_emissions :: "world \<Rightarrow> pyfloat \<Rightarrow> json \<Rightarrow> emissions_data option" where
  "calculate_emissions w dist_km CARBON_INTERFACE_API_KEY =
     do {
       response \<leftarrow> carbon_estimates w CARBON_INTERFACE_API_KEY
         (JObj [(''type'', JStr ''vehicle''), (''distance_unit'', JStr ''km''),
                (''distance_value'', JFloat dist_km),
                (''vehicle_model_id'', JStr ''7268a9b7-17e8-4c8d-acca-57059252afe9'')]);
       if status_code response = 201 then
         do {
           emissions_json \<leftarrow> json_body response;
           dat \<leftarrow> caught (getitem_key emissions_json ''data'');
           attributes \<leftarrow> caught (getitem_key dat ''attributes'');
           g \<leftarrow> caught (getitem_key attributes ''carbon_g'');
           kg \<leftarrow> caught (py_truediv g 1000);
           Some \<lparr>carbon_g = g, carbon_kg = kg\<rparr>
         }
       else None
     }"

definition get_weather_data :: "world \<Rightarrow> string \<Rightarrow> json \<Rightarrow> weather_data option" where
  "get_weather_data w location WEATHER_API_KEY =
     do {
       response \<leftarrow> openweathermap w location WEATHER_API_KEY;
       if status_code response = 200 then
         do {
           weather_json \<leftarrow> json_body response;
           main \<leftarrow> caught (getitem_key weather_json ''main'');
           temp \<leftarrow> caught (getitem_key main ''temp'');
           conditions \<leftarrow> caught (getitem_key weather_json ''weather'');
           first \<leftarrow> caught (getitem_index conditions 0);
           description \<leftarrow> caught (getitem_key first ''description'');
           wind \<leftarrow> caught (getitem_key weather_json ''wind'');
           speed \<leftarrow> caught (getitem_key wind ''speed'');
           Some \<lparr>temperature = temp, weather = description, wind_speed = speed\<rparr>
         }
       else None
     }"

definition swap_axes :: "json \<Rightarrow> json option" where
  \<comment> \<open>\<open>[c[1], c[0]]\<close>\<close>
  "swap_axes c =
     do {
       c1 \<leftarrow> caught (getitem_index c 1);
       c0 \<leftarrow> caught (getitem_index c 0);
       Some (JList [c1, c0])
     }"

definition step_instructions :: "json \<Rightarrow> json list option" where
  \<comment> \<open>what one \<open>step\<close> appends to \<open>directions\<close>\<close>
  "step_instructions step =
     do {
       present \<leftarrow> caught (py_in ''instruction'' step);
       if present then
         do { instruction \<leftarrow> caught (getitem_key step ''instruction''); Some [instruction] }
       else Some []
     }"

definition segment_instructions :: "json \<Rightarrow> json list option" where
  \<comment> \<open>the inner loop over \<open>segment.get("steps", [])\<close>\<close>
  "segment_instructions segment =
     do {
       steps \<leftarrow> caught (dict_get segment ''steps'' (JList []));
       step_list \<leftarrow> caught (py_iter steps);
       appended \<leftarrow> those (map step_instructions step_list);
       Some (concat appended)
     }"

definition route_of_feature :: "json \<Rightarrow> route_data option" where
  \<comment> \<open>the body of the \<open>if\<close> on a response with features\<close>
  "route_of_feature route_feature =
     do {
       geometry \<leftarrow> caught (getitem_key route_feature ''geometry'');
       coords \<leftarrow> caught (getitem_key geometry ''coordinates'');
       properties \<leftarrow> caught (getitem_key route_feature ''properties'');
       coord_list \<leftarrow> caught (py_iter coords);
       converted_coordinates \<leftarrow> those (map swap_axes coord_list);
       segments \<leftarrow> caught (getitem_key properties ''segments'');
       segment0 \<leftarrow> caught (getitem_index segments 0);
       duration \<leftarrow> caught (getitem_key segment0 ''duration'');
       minutes \<leftarrow> caught (py_truediv duration 60);
       rounded \<leftarrow> caught (py_round minutes);
       distance \<leftarrow> caught (getitem_key segment0 ''distance'');
       km \<leftarrow> caught (py_truediv distance 1000);
       segment_list \<leftarrow> caught (py_iter segments);
       appended \<leftarrow> those (map segment_instructions segment_list);
       Some \<lparr>distance_km = km, duration_minutes = rounded,
             coordinates = converted_coordinates, directions = concat appended,
             emissions = None\<rparr>
     }"

definition get_eco_route :: "world \<Rightarrow> json \<Rightarrow> json \<Rightarrow> json \<Rightarrow> route_data option" where
  "get_eco_route w origin_coords destination_coords OPENROUTESERVICE_API_KEY =
     do {
       formatted_origin \<leftarrow> swap_axes origin_coords;
       formatted_destination \<leftarrow> swap_axes destination_coords;
       response \<leftarrow> ors_directions w OPENROUTESERVICE_API_KEY
         (JObj [(''coordinates'', JList [formatted_origin, formatted_destination]),
                (''profile'', JStr ''driving-car'')]);
       if status_code response \<noteq> 200 then None
       else
         do {
           route_json \<leftarrow> json_body response;
           has_features \<leftarrow> caught (py_in ''features'' route_json);
           if has_features then
             do {
               features \<leftarrow> caught (getitem_key route_json ''features'');
               if py_truthy features then
                 do {
                   route_feature \<leftarrow> caught (getitem_index features 0);
                   route_of_feature route_feature
                 }
               else None
             }
           else None
         }
     }"


definition and_then :: "py_exn + 'a \<Rightarrow> ('a \<Rightarrow> py_exn + 'b) \<Rightarrow> py_exn + 'b" where
  \<comment> \<open>sequencing outside a \<open>try\<close>: the first exception ends the evaluation\<close>
  "and_then r f = (case r of Inl err \<Rightarrow> Inl err | Inr x \<Rightarrow> f x)"

record optimized_route =
  optimized_distance_km :: pyfloat
  optimized_duration_minutes :: int
  optimized_carbon_kg :: pyfloat
    \<comment> \<open>\<open>["optimized_carbon_emissions"]["carbon_kg"]\<close>\<close>

definition simulate_optimized_route :: "route_data \<Rightarrow> py_exn + optimized_route" where
  "simulate_optimized_route r =
     and_then (int_mul_float (duration_minutes r) (float_lit 95 100)) (\<lambda>scaled.
     and_then (py_round scaled) (\<lambda>rounded.
     and_then (case emissions r of None \<Rightarrow> Inl KeyError | Some em \<Rightarrow> Inr em) (\<lambda>em.
     Inr \<lparr>optimized_distance_km = distance_km r,
          optimized_duration_minutes = rounded,
          optimized_carbon_kg = float_mul (carbon_kg em) (float_lit 9 10)\<rparr>)))"

definition subscript_two :: string where
  \<comment> \<open>U+2082 in UTF-8\<close>
  "subscript_two = [CHR 0xE2, CHR 0x82, CHR 0x82]"

definition degree_sign :: string where
  \<comment> \<open>U+00B0 in UTF-8\<close>
  "degree_sign = [CHR 0xC2, CHR 0xB0]"

definition generate_openai_prompt ::
  "world \<Rightarrow> route_data \<Rightarrow> energy_data \<Rightarrow> emissions_data \<Rightarrow> weather_data \<Rightarrow> weather_data
     \<Rightarrow> json \<Rightarrow> py_exn + string" where
  "generate_openai_prompt w r energy carbon_emissions weather_origin weather_destination vehicle =
     and_then (getitem_key vehicle ''type'') (\<lambda>vehicle_type.
     and_then (getitem_key vehicle ''efficiency'') (\<lambda>efficiency.
     and_then (getitem_key vehicle ''fuel_type'') (\<lambda>fuel_type.
     Inr (''Based on the following information:\<newline>''
       @ ''- Distance: '' @ str_of w (JFloat (distance_km r)) @ '' km\<newline>''
       @ ''- Estimated Time: '' @ str_of w (JInt (duration_minutes r)) @ '' minutes\<newline>''
       @ ''- Energy Price: $'' @ str_of w (price_per_gallon energy) @ '' per gallon\<newline>''
       @ ''- Estimated Carbon Emissions: '' @ format_2f w (carbon_kg carbon_emissions)
       @ '' kg of CO'' @ subscript_two @ ''\<newline>''
       @ ''- Weather at Origin: '' @ str_of w (weather weather_origin) @ '', ''
       @ ''  Temperature: '' @ str_of w (temperature weather_origin) @ degree_sign @ ''C, ''
       @ ''  Wind Speed: '' @ str_of w (wind_speed weather_origin) @ '' m/s\<newline>''
       @ ''- Weather at Destination: '' @ str_of w (weather weather_destination) @ '', ''
       @ ''  Temperature: '' @ str_of w (temperature weather_destination) @ degree_sign @ ''C, ''
       @ ''  Wind Speed: '' @ str_of w (wind_speed weather_destination) @ '' m/s\<newline>''
       @ ''- Vehicle Type: '' @ str_of w vehicle_type @ '', ''
       @ ''  Fuel Efficiency: '' @ str_of w efficiency @ '' km/l, ''
       @ ''  Fuel Type: '' @ str_of w fuel_type @ ''\<newline>''
       @ '' Provide a recommendation for reducing emissions and optimizing energy consumption for this route. Dont number the first part with based on the information part. Then the others should be indented in and then numbered starting a 1 ''))))"

definition chat_reply :: "world \<Rightarrow> string \<Rightarrow> json \<Rightarrow> string option" where
  \<comment> \<open>the body of the \<open>try\<close> of \<open>get_openai_recommendation\<close>; \<open>None\<close> when it raises\<close>
  "chat_reply w prompt OPENAI_API_KEY =
     do {
       response \<leftarrow> chat_completion w OPENAI_API_KEY prompt;
       choices \<leftarrow> caught (getitem_key response ''choices'');
       choice \<leftarrow> caught (getitem_index choices 0);
       message \<leftarrow> caught (getitem_key choice ''message'');
       content \<leftarrow> caught (getitem_key message ''content'');
       case content of JStr text \<Rightarrow> Some (strip w text) | _ \<Rightarrow> None
     }"

definition get_openai_recommendation :: "world \<Rightarrow> string \<Rightarrow> json \<Rightarrow> string" where
  "get_openai_recommendation w prompt OPENAI_API_KEY =
     (case chat_reply w prompt OPENAI_API_KEY of
        None \<Rightarrow> ''Failed to generate recommendation.''
      | Some text \<Rightarrow> text)"

section \<open>The orchestrator\<close>

record request =
  origin_coords :: json
  destination_coords :: json
  vehicle :: json
  eia_api_key :: json
  carbon_interface_api_key :: json
  weather_api_key :: json
  openrouteservice_api_key :: json
  openai_api_key :: json

definition request_fields :: "json \<Rightarrow> py_exn + request" where
  \<comment> \<open>the reads of \<open>data\<close> and of \<open>api_keys\<close>, in the order of the source\<close>
  "request_fields data =
     and_then (dict_get data ''origin_coords'' JNull) (\<lambda>origin.
     and_then (dict_get data ''destination_coords'' JNull) (\<lambda>destination.
     and_then (dict_get data ''vehicle'' JNull) (\<lambda>veh.
     and_then (dict_get data ''api_keys'' (JObj [])) (\<lambda>api_keys.
     and_then (dict_get api_keys ''EIA_API_KEY'' JNull) (\<lambda>eia.
     and_then (dict_get api_keys ''CARBON_INTERFACE_API_KEY'' JNull) (\<lambda>carbon.
     and_then (dict_get api_keys ''WEATHER_API_KEY'' JNull) (\<lambda>wth.
     and_then (dict_get api_keys ''OPENROUTESERVICE_API_KEY'' JNull) (\<lambda>ors.
     and_then (dict_get api_keys ''OPENAI_API_KEY'' JNull) (\<lambda>openai.
     Inr \<lparr>origin_coords = origin, destination_coords = destination, vehicle = veh,
          eia_api_key = eia, carbon_interface_api_key = carbon, weather_api_key = wth,
          openrouteservice_api_key = ors, openai_api_key = openai\<rparr>)))))))))"

record estimate =
  estimate_distance_km :: pyfloat
  estimate_duration_minutes :: int
  carbon_emissions_kg :: pyfloat

record comparison =
  original :: estimate
  optimized :: estimate

datatype payload =
  Error_payload string
  | Internal_server_error py_exn
  | Result_payload "json list" "json list" comparison string
    \<comment> \<open>\<open>route\<close>, \<open>directions\<close>, \<open>comparison\<close>, \<open>recommendation\<close>\<close>

record response =
  status :: nat
  payload :: payload

datatype adapter_call =
  Route_call json json json
  | Energy_call json
  | Weather_call string json
  | Emissions_call pyfloat json
  | Recommendation_call string json

definition fallback_emissions :: "pyfloat \<Rightarrow> emissions_data" where
  \<comment> \<open>the estimate the orchestrator substitutes when the emissions adapter returns \<open>None\<close>\<close>
  "fallback_emissions dist_km =
     \<lparr>carbon_g = JFloat (float_mul dist_km (float_lit 2310 1)),
      carbon_kg = float_mul dist_km (float_lit 231 100)\<rparr>"

definition resolved_emissions :: "world \<Rightarrow> pyfloat \<Rightarrow> json \<Rightarrow> emissions_data" where
  \<comment> \<open>step 4: the adapter's result, or the fallback\<close>
  "resolved_emissions w dist_km key =
     (case calculate_emissions w dist_km key of
        None \<Rightarrow> fallback_emissions dist_km
      | Some carbon_emissions \<Rightarrow> carbon_emissions)"

definition get_route_recommendation :: "world \<Rightarrow> json \<Rightarrow> adapter_call list \<times> response" where
  \<comment> \<open>the adapter calls made, in order, and the response returned\<close>
  "get_route_recommendation w data =
     (case request_fields data of
        Inl err \<Rightarrow> ([], \<lparr>status = 500, payload = Internal_server_error err\<rparr>)
      | Inr rq \<Rightarrow>
         (if \<not> list_all py_truthy
                [eia_api_key rq, carbon_interface_api_key rq, weather_api_key rq,
                 openrouteservice_api_key rq, openai_api_key rq]
          then ([], \<lparr>status = 400, payload = Error_payload ''All five API keys are required.''\<rparr>)
          else if \<not> (py_truthy (origin_coords rq) \<and> py_truthy (destination_coords rq))
          then ([], \<lparr>status = 400, payload =
                  Error_payload ''Both origin_coords and destination_coords must be provided.''\<rparr>)
          else
           (let calls1 = [Route_call (origin_coords rq) (destination_coords rq)
                            (openrouteservice_api_key rq)]
            in (case get_eco_route w (origin_coords rq) (destination_coords rq)
                       (openrouteservice_api_key rq) of
              None \<Rightarrow> (calls1, \<lparr>status = 400, payload =
                  Error_payload ''Unable to calculate route with provided coordinates.''\<rparr>)
            | Some r \<Rightarrow>
               (let calls2 = calls1 @ [Energy_call (eia_api_key rq)]
                in (case get_energy_data w (eia_api_key rq) of
                  None \<Rightarrow> (calls2, \<lparr>status = 400, payload =
                      Error_payload ''Unable to retrieve energy data from EIA API.''\<rparr>)
                | Some energy \<Rightarrow>
                   (let weather_origin =
                          (case get_weather_data w ''San Francisco'' (weather_api_key rq) of
                             None \<Rightarrow> \<lparr>temperature = JInt 20, weather = JStr ''clear'', wind_speed = JInt 5\<rparr>
                           | Some found \<Rightarrow> found);
                        weather_destination =
                          (case get_weather_data w ''Los Angeles'' (weather_api_key rq) of
                             None \<Rightarrow> \<lparr>temperature = JInt 25, weather = JStr ''clear'', wind_speed = JInt 5\<rparr>
                           | Some found \<Rightarrow> found);
                        carbon_emissions =
                          resolved_emissions w (distance_km r) (carbon_interface_api_key rq);
                        r' = r\<lparr>emissions := Some carbon_emissions\<rparr>;
                        calls5 = calls2 @
                          [Weather_call ''San Francisco'' (weather_api_key rq),
                           Weather_call ''Los Angeles'' (weather_api_key rq),
                           Emissions_call (distance_km r) (carbon_interface_api_key rq)]
                    in (case simulate_optimized_route r' of
                      Inl err \<Rightarrow>
                        (calls5, \<lparr>status = 500, payload = Internal_server_error err\<rparr>)
                    | Inr optimized_route \<Rightarrow>
                       (case generate_openai_prompt w r' energy carbon_emissions
                               weather_origin weather_destination (vehicle rq) of
                          Inl err \<Rightarrow>
                            (calls5, \<lparr>status = 500, payload = Internal_server_error err\<rparr>)
                        | Inr prompt \<Rightarrow>
                           (let recommendation =
                                  get_openai_recommendation w prompt (openai_api_key rq);
                                cmp =
                                  \<lparr>original =
                                     \<lparr>estimate_distance_km = distance_km r',
                                      estimate_duration_minutes = duration_minutes r',
                                      carbon_emissions_kg = carbon_kg carbon_emissions\<rparr>,
                                   optimized =
                                     \<lparr>estimate_distance_km =
                                        optimized_distance_km optimized_route,
                                      estimate_duration_minutes =
                                        optimized_duration_minutes optimized_route,
                                      carbon_emissions_kg =
                                        optimized_carbon_kg optimized_route\<rparr>\<rparr>
                            in (calls5 @ [Recommendation_call prompt (openai_api_key rq)],
                                \<lparr>status = 200, payload =
                                   Result_payload (coordinates r') (directions r') cmp
                                     recommendation\<rparr>)))))))))))"


section \<open>Vocabulary of the properties\<close>

definition max_double :: int where
  \<comment> \<open>the largest finite double, an integer\<close>
  "max_double = (2 ^ 53 - 1) * 2 ^ 971"

definition in_range :: "pyfloat \<Rightarrow> bool" where
  \<comment> \<open>a finite double with a significand of at most 53 bits and no exponent overflow\<close>
  "in_range x = (case x of Finite s m e \<Rightarrow> m < 2 ^ 53 \<and> e \<le> 971 | _ \<Rightarrow> False)"

definition credential_names :: "string list" where
  "credential_names =
     [''EIA_API_KEY'', ''CARBON_INTERFACE_API_KEY'', ''WEATHER_API_KEY'',
      ''OPENROUTESERVICE_API_KEY'', ''OPENAI_API_KEY'']"

definition member_or_null :: "(string \<times> json) list \<Rightarrow> string \<Rightarrow> json" where
  \<comment> \<open>the member \<open>k\<close> of an object, \<open>None\<close> when it is missing\<close>
  "member_or_null kvs k = (case map_of kvs k of None \<Rightarrow> JNull | Some v \<Rightarrow> v)"

definition passes_validation :: "json \<Rightarrow> bool" where
  \<comment> \<open>the request reaches step 1: all five keys and both coordinate pairs are truthy\<close>
  "passes_validation data =
     (case request_fields data of
        Inl err \<Rightarrow> False
      | Inr rq \<Rightarrow>
          list_all py_truthy
            [eia_api_key rq, carbon_interface_api_key rq, weather_api_key rq,
             openrouteservice_api_key rq, openai_api_key rq]
          \<and> py_truthy (origin_coords rq) \<and> py_truthy (destination_coords rq))"

definition has_vehicle_profile :: "json \<Rightarrow> bool" where
  \<comment> \<open>an object with the members \<open>type\<close>, \<open>efficiency\<close> and \<open>fuel_type\<close>\<close>
  "has_vehicle_profile v =
     (case v of
        JObj ms \<Rightarrow> map_of ms ''type'' \<noteq> None \<and> map_of ms ''efficiency'' \<noteq> None
          \<and> map_of ms ''fuel_type'' \<noteq> None
      | _ \<Rightarrow> False)"

datatype adapter = Route | Energy | Weather | Emissions | Recommendation

fun adapter_of :: "adapter_call \<Rightarrow> adapter" where
  "adapter_of (Route_call origin destination key) = Route"
| "adapter_of (Energy_call key) = Energy"
| "adapter_of (Weather_call location key) = Weather"
| "adapter_of (Emissions_call dist_km key) = Emissions"
| "adapter_of (Recommendation_call prompt key) = Recommendation"

fun weather_locations :: "adapter_call list \<Rightarrow> string list" where
  \<comment> \<open>the locations of the weather lookups among the calls, in order\<close>
  "weather_locations [] = []"
| "weather_locations (Weather_call location key # calls) = location # weather_locations calls"
| "weather_locations (call # calls) = weather_locations calls"

definition calls_through_emissions :: "request \<Rightarrow> route_data \<Rightarrow> adapter_call list" where
  \<comment> \<open>the calls of steps 1 to 4 on a request whose route resolved to \<open>r\<close>\<close>
  "calls_through_emissions rq r =
     [Route_call (origin_coords rq) (destination_coords rq) (openrouteservice_api_key rq),
      Energy_call (eia_api_key rq),
      Weather_call ''San Francisco'' (weather_api_key rq),
      Weather_call ''Los Angeles'' (weather_api_key rq),
      Emissions_call (distance_km r) (carbon_interface_api_key rq)]"

definition sample_route :: route_data where
  \<comment> \<open>559 km in 300 minutes\<close>
  "sample_route =
     \<lparr>distance_km = float_lit 559 1, duration_minutes = 300,
      coordinates = [JList [JInt 37, JInt (- 122)], JList [JInt 34, JInt (- 118)]],
      directions = [JStr ''Head south'', JStr ''Arrive''],
      emissions = None\<rparr>"

subsection \<open>A sample world and a sample request\<close>

definition sample_feature :: json where
  "sample_feature =
     JObj
       [(''geometry'', JObj [(''coordinates'',
           JList [JList [JInt (- 122), JInt 37], JList [JInt (- 118), JInt 34]])]),
        (''properties'', JObj [(''segments'', JList [JObj
           [(''duration'', JInt 18000), (''distance'', JInt 559000),
            (''steps'', JList [JObj [(''instruction'', JStr ''Head south'')],
                               JObj [(''name'', JStr ''-'')],
                               JObj [(''instruction'', JStr ''Arrive'')]])]])])]"

definition sample_route_json :: json where
  "sample_route_json = JObj [(''features'', JList [sample_feature])]"

definition sample_world :: world where
  \<comment> \<open>every service answers; the weather service knows San Francisco only\<close>
  "sample_world =
     \<lparr>ors_directions = (\<lambda>key body. Some \<lparr>status_code = 200, json_body = Some sample_route_json\<rparr>),
      eia_prices = (\<lambda>key. Some \<lparr>status_code = 200, json_body = Some
        (JObj [(''response'', JObj [(''data'', JList [JObj
           [(''value'', JStr ''3.5''), (''period'', JStr ''2024-01-01'')]])])])\<rparr>),
      carbon_estimates = (\<lambda>key body. Some \<lparr>status_code = 201, json_body = Some
        (JObj [(''data'', JObj [(''attributes'', JObj [(''carbon_g'', JInt 50000)])])])\<rparr>),
      openweathermap = (\<lambda>location key.
        if location = ''San Francisco''
        then Some \<lparr>status_code = 200, json_body = Some
          (JObj [(''main'', JObj [(''temp'', JInt 15)]),
                 (''weather'', JList [JObj [(''description'', JStr ''fog'')]]),
                 (''wind'', JObj [(''speed'', JInt 3)])])\<rparr>
        else Some \<lparr>status_code = 404, json_body = None\<rparr>),
      chat_completion = (\<lambda>key prompt. Some
        (JObj [(''choices'', JList [JObj [(''message'',
           JObj [(''content'', JStr ''Drive smoothly.'')])]])])),
      str_of = (\<lambda>v. ''_''),
      format_2f = (\<lambda>x. ''_''),
      strip = (\<lambda>text. text)\<rparr>"

definition sample_keys :: "(string \<times> json) list" where
  "sample_keys =
     [(''EIA_API_KEY'', JStr ''e''), (''CARBON_INTERFACE_API_KEY'', JStr ''c''),
      (''WEATHER_API_KEY'', JStr ''w''), (''OPENROUTESERVICE_API_KEY'', JStr ''r''),
      (''OPENAI_API_KEY'', JStr ''o'')]"

definition sample_vehicle :: json where
  "sample_vehicle =
     JObj [(''type'', JStr ''sedan''), (''efficiency'', JInt 15), (''fuel_type'', JStr ''gasoline'')]"

definition sample_members :: "json \<Rightarrow> (string \<times> json) list \<Rightarrow> (string \<times> json) list" where
  \<comment> \<open>the members of a request body with the given vehicle and keys\<close>
  "sample_members veh keys =
     [(''origin_coords'', JList [JInt 37, JInt (- 122)]),
      (''destination_coords'', JList [JInt 34, JInt (- 118)]),
      (''vehicle'', veh),
      (''api_keys'', JObj keys)]"

definition sample_fields :: "json \<Rightarrow> request" where
  \<comment> \<open>what the orchestrator reads from that body\<close>
  "sample_fields veh =
     \<lparr>origin_coords = JList [JInt 37, JInt (- 122)],
      destination_coords = JList [JInt 34, JInt (- 118)],
      vehicle = veh,
      eia_api_key = JStr ''e'', carbon_interface_api_key = JStr ''c'',
      weather_api_key = JStr ''w'', openrouteservice_api_key = JStr ''r'',
      openai_api_key = JStr ''o''\<rparr>"

definition no_route_world :: world where
  \<comment> \<open>the sample world with the routing service unreachable\<close>
  "no_route_world = sample_world\<lparr>ors_directions := \<lambda>key body. None\<rparr>"

definition no_energy_world :: world where
  "no_energy_world = sample_world\<lparr>eia_prices := \<lambda>key. None\<rparr>"

definition no_emissions_world :: world where
  "no_emissions_world = sample_world\<lparr>carbon_estimates := \<lambda>key body. None\<rparr>"

definition no_recommendation_world :: world where
  "no_recommendation_world = sample_world\<lparr>chat_completion := \<lambda>key prompt. None\<rparr>"

definition no_duration_json :: json where
  \<comment> \<open>a routing response with one feature, whose segment states no duration\<close>
  "no_duration_json =
     JObj [(''features'', JList [JObj
       [(''geometry'', JObj [(''coordinates'',
           JList [JList [JInt (- 122), JInt 37], JList [JInt (- 118), JInt 34]])]),
        (''properties'', JObj [(''segments'', JList [JObj
           [(''distance'', JInt 559000), (''steps'', JList [])]])])]])]"

definition no_duration_world :: world where
  "no_duration_world =
     sample_world\<lparr>ors_directions :=
       \<lambda>key body. Some \<lparr>status_code = 200, json_body = Some no_duration_json\<rparr>\<rparr>"

definition directions_request :: "json \<Rightarrow> json \<Rightarrow> json" where
  \<comment> \<open>the payload posted to the routing service for two swapped coordinate pairs\<close>
  "directions_request formatted_origin formatted_destination =
     JObj [(''coordinates'', JList [formatted_origin, formatted_destination]),
           (''profile'', JStr ''driving-car'')]"

definition first_feature :: "json \<Rightarrow> json option" where
  \<comment> \<open>\<open>route_data["features"][0]\<close> when the payload has a truthy member \<open>features\<close>\<close>
  "first_feature route_json =
     do {
       has_features \<leftarrow> caught (py_in ''features'' route_json);
       if has_features then
         do {
           features \<leftarrow> caught (getitem_key route_json ''features'');
           if py_truthy features then caught (getitem_index features 0) else None
         }
       else None
     }"

definition null_keys_request :: json where
  \<comment> \<open>the sample request with \<open>"api_keys": null\<close>\<close>
  "null_keys_request =
     JObj [(''origin_coords'', JList [JInt 37, JInt (- 122)]),
           (''destination_coords'', JList [JInt 34, JInt (- 118)]),
           (''vehicle'', sample_vehicle),
           (''api_keys'', JNull)]"

section \<open>Properties\<close>

subsection \<open>Sequencing\<close>

lemma and_then_Inr [simp]: "and_then (Inr x) f = f x"
  by (simp add: and_then_def)

lemma and_then_Inl [simp]: "and_then (Inl err) f = Inl err"
  by (simp add: and_then_def)

lemma caught_Some [simp]: "caught r = Some x \<longleftrightarrow> r = Inr x"
  by (cases r) (simp_all add: caught_def)

lemma caught_Inr [simp]: "caught (Inr x) = Some x"
  by (simp add: caught_def)

lemma caught_Inl [simp]: "caught (Inl err) = None"
  by (simp add: caught_def)

subsection \<open>Rounding stays within the doubles\<close>

lemma rne_div_le:
  assumes "0 \<le> n" "0 < d" "n \<le> c * d"
  shows "rne_div n d \<le> c"
proof -
  have q: "n div d \<le> c"
    using assms by (metis zdiv_mono1 nonzero_mult_div_cancel_right less_irrefl)
  have r: "0 \<le> n mod d" using assms by simp
  have "n div d < c" if "0 < n mod d"
  proof (rule ccontr)
    assume "\<not> n div d < c"
    with q have "n div d = c" by simp
    then have "n = c * d + n mod d" by (metis mult.commute mult_div_mod_eq)
    with that assms show False by simp
  qed
  then show ?thesis using q r assms(2)
    unfolding rne_div_def Let_def by auto
qed

lemma rne_div_nonneg:
  assumes "0 \<le> n" "0 < d"
  shows "0 \<le> rne_div n d"
  using assms unfolding rne_div_def Let_def by (auto simp: pos_imp_zdiv_nonneg_iff)

lemma rne_div_le_self:
  assumes "0 \<le> n" "0 < d"
  shows "rne_div n d \<le> n"
  using rne_div_le [of n d n] assms by (simp add: mult_le_cancel_left1)

lemma pow_split: "(2::real) ^ nat x / 2 ^ nat (- x) = 2 powi x"
proof (cases "0 \<le> x")
  case True
  then show ?thesis by (simp add: power_int_def)
next
  case False
  then have "nat x = 0" by simp
  moreover have "(2::real) powi x = inverse 2 ^ nat (- x)"
    using False by (simp only: power_int_def if_False)
  moreover have "inverse (2::real) ^ nat (- x) = 1 / 2 ^ nat (- x)"
    by (simp add: power_one_over)
  ultimately show ?thesis by (simp only: power_0)
qed

lemma scaled_less_iff:
  fixes n d c :: int
  assumes "0 < d"
  shows "n * 2 ^ nat (- x) < c * (d * 2 ^ nat x) \<longleftrightarrow> real_of_int n / real_of_int d < real_of_int c * 2 powi x"
proof -
  have "n * 2 ^ nat (- x) < c * (d * 2 ^ nat x) \<longleftrightarrow>
        real_of_int (n * 2 ^ nat (- x)) < real_of_int (c * (d * 2 ^ nat x))"
    by linarith
  also have "\<dots> \<longleftrightarrow> real_of_int n * 2 ^ nat (- x) < real_of_int c * real_of_int d * 2 ^ nat x"
    by (simp add: mult.assoc)
  also have "\<dots> \<longleftrightarrow> real_of_int n / real_of_int d < real_of_int c * (2 ^ nat x / 2 ^ nat (- x))"
    using assms by (simp add: field_simps)
  finally show ?thesis by (simp add: pow_split)
qed

lemma scaled_le_iff:
  fixes n d c :: int
  assumes "0 < d"
  shows "c * (d * 2 ^ nat x) \<le> n * 2 ^ nat (- x) \<longleftrightarrow> real_of_int c * 2 powi x \<le> real_of_int n / real_of_int d"
  using scaled_less_iff [OF assms, of n x c] by linarith

lemma bitlen_powi:
  assumes "0 < x"
  shows "2 powi (bitlen x - 1) \<le> real_of_int x" "real_of_int x < 2 powi (bitlen x)"
proof -
  have b: "1 \<le> bitlen x" using assms bitlen_eq_zero_iff [of x] bitlen_nonneg [of x] by linarith
  have "2 ^ nat (bitlen x - 1) \<le> x" "x < 2 ^ nat (bitlen x)"
    using bitlen_bounds [OF assms] by simp_all
  then have "real_of_int (2 ^ nat (bitlen x - 1)) \<le> real_of_int x"
    "real_of_int x < real_of_int (2 ^ nat (bitlen x))"
    by linarith+
  then show "2 powi (bitlen x - 1) \<le> real_of_int x" "real_of_int x < 2 powi (bitlen x)"
    using b by (simp_all add: power_int_def)
qed


lemma powi_diff2: "(2::real) powi a / 2 powi b = 2 powi (a - b)"
  by (simp add: power_int_diff)

lemma floor_log2_bounds:
  assumes "0 < n" "0 < d"
  shows "2 powi (floor_log2 n d) \<le> real_of_int n / real_of_int d"
    and "real_of_int n / real_of_int d < 2 powi (floor_log2 n d + 1)"
proof -
  let ?q = "real_of_int n / real_of_int d"
  let ?l = "bitlen n - bitlen d"
  have dpos: "0 < real_of_int d" using assms by simp
  have up: "?q < 2 powi (?l + 1)"
  proof -
    have "?q < 2 powi (bitlen n) / real_of_int d"
      using bitlen_powi(2) [OF assms(1)] dpos by (simp add: divide_strict_right_mono)
    also have "\<dots> \<le> 2 powi (bitlen n) / 2 powi (bitlen d - 1)"
      using bitlen_powi(1) [OF assms(2)] by (simp add: frac_le)
    also have "\<dots> = 2 powi (?l + 1)"
      by (simp add: powi_diff2 algebra_simps)
    finally show ?thesis .
  qed
  have low: "2 powi (?l - 1) \<le> ?q"
  proof -
    have "(2::real) powi (?l - 1) = 2 powi (bitlen n - 1) / 2 powi (bitlen d)"
      by (simp add: powi_diff2 algebra_simps)
    also have "\<dots> \<le> real_of_int n / 2 powi (bitlen d)"
      using bitlen_powi(1) [OF assms(1)] by (simp add: divide_right_mono)
    also have "\<dots> \<le> ?q"
      using bitlen_powi(2) [OF assms(2)] assms by (simp add: frac_le)
    finally show ?thesis .
  qed
  have test: "d * 2 ^ nat ?l \<le> n * 2 ^ nat (- ?l) \<longleftrightarrow> 2 powi ?l \<le> ?q"
    using scaled_le_iff [OF assms(2), of 1 ?l n] by simp
  show "2 powi (floor_log2 n d) \<le> ?q"
    using low test unfolding floor_log2_def Let_def by auto
  show "?q < 2 powi (floor_log2 n d + 1)"
    using up test unfolding floor_log2_def Let_def by (auto simp: not_le)
qed

lemma float_exponent_upper:
  assumes "0 < n" "0 < d"
  shows "real_of_int n / real_of_int d < 2 powi (float_exponent n d + 53)"
proof -
  have "floor_log2 n d + 1 \<le> float_exponent n d + 53"
    unfolding float_exponent_def by simp
  then have "(2::real) powi (floor_log2 n d + 1) \<le> 2 powi (float_exponent n d + 53)"
    by (simp add: power_int_increasing)
  with floor_log2_bounds(2) [OF assms] show ?thesis by linarith
qed

lemma float_exponent_le:
  assumes "0 < n" "0 < d" "real_of_int n / real_of_int d < 2 powi 1024"
  shows "float_exponent n d \<le> 971"
proof -
  have "(2::real) powi (floor_log2 n d) < 2 powi 1024"
    using floor_log2_bounds(1) [OF assms(1,2)] assms(3) by linarith
  then have "floor_log2 n d < 1024"
    by (metis power_int_increasing not_less one_le_numeral)
  then show ?thesis unfolding float_exponent_def by simp
qed


lemma round_to_float_cases:
  assumes "0 \<le> n" "0 < d"
  shows "round_to_float s n d = Infinity s \<or> in_range (round_to_float s n d)"
proof (cases "n = 0")
  case True
  then show ?thesis by (simp add: round_to_float_def in_range_def)
next
  case False
  with assms have npos: "0 < n" by simp
  let ?e = "float_exponent n d"
  let ?N = "n * 2 ^ nat (- ?e)" and ?D = "d * 2 ^ nat ?e"
  let ?m = "rne_div ?N ?D"
  have "real_of_int n / real_of_int d < 2 powi (?e + 53)"
    by (rule float_exponent_upper [OF npos assms(2)])
  also have "\<dots> = real_of_int (2 ^ 53) * 2 powi ?e"
    by (simp add: power_int_add)
  finally have "?N < 2 ^ 53 * ?D"
    using scaled_less_iff [OF assms(2), of n ?e "2 ^ 53"] by simp
  moreover have N: "0 \<le> ?N" and D: "0 < ?D" using assms by simp_all
  ultimately have m: "?m \<le> 2 ^ 53" "0 \<le> ?m"
    using rne_div_le [of ?N ?D "2 ^ 53"] rne_div_nonneg [of ?N ?D] by simp_all
  show ?thesis
    using m False unfolding round_to_float_def Let_def in_range_def
    by (auto simp: nat_less_iff)
qed


lemma max_double_less: "real_of_int max_double < 2 powi 1024"
proof -
  have "max_double < 2 ^ 1024" unfolding max_double_def by simp
  then have "real_of_int max_double < real_of_int (2 ^ 1024)" by linarith
  then show ?thesis by simp
qed

lemma round_to_float_in_range:
  assumes "0 \<le> n" "0 < d" "n \<le> max_double * d"
  shows "in_range (round_to_float s n d)"
proof (cases "n = 0")
  case True
  then show ?thesis by (simp add: round_to_float_def in_range_def)
next
  case False
  with assms have npos: "0 < n" by simp
  let ?e = "float_exponent n d"
  let ?N = "n * 2 ^ nat (- ?e)" and ?D = "d * 2 ^ nat ?e"
  let ?m = "rne_div ?N ?D"
  have "real_of_int n \<le> real_of_int (max_double * d)" using assms(3) by linarith
  then have "real_of_int n / real_of_int d \<le> real_of_int max_double"
    using assms(2) by (simp add: pos_divide_le_eq)
  then have "real_of_int n / real_of_int d < 2 powi 1024"
    using max_double_less by linarith
  then have e: "?e \<le> 971" by (rule float_exponent_le [OF npos assms(2)])
  have "?m \<noteq> 2 ^ 53" if "?e = 971"
  proof -
    have "?N \<le> (2 ^ 53 - 1) * ?D"
      using that assms(3) by (simp add: max_double_def algebra_simps)
    then have "?m \<le> 2 ^ 53 - 1"
      using rne_div_le [of ?N ?D "2 ^ 53 - 1"] assms(1,2) by simp
    then show ?thesis by simp
  qed
  then have "round_to_float s n d \<noteq> Infinity s"
    using e False unfolding round_to_float_def Let_def by auto
  then show ?thesis using round_to_float_cases [OF assms(1,2), of s] by simp
qed

lemma py_round_in_range:
  assumes "in_range x"
  shows "\<exists>n. py_round x = Inr n \<and> \<bar>n\<bar> \<le> max_double"
proof -
  from assms obtain s m e where x: "x = Finite s m e" and m: "m < 2 ^ 53" and e: "e \<le> 971"
    by (auto simp: in_range_def split: pyfloat.splits)
  let ?r = "rne_div (int m * 2 ^ nat e) (2 ^ nat (- e))"
  have nonneg: "0 \<le> ?r" by (rule rne_div_nonneg) simp_all
  have "?r \<le> int m * 2 ^ nat e" by (rule rne_div_le_self) simp_all
  also have "\<dots> \<le> (2 ^ 53 - 1) * 2 ^ nat e"
    using m by (simp add: nat_less_iff)
  also have "\<dots> \<le> (2 ^ 53 - 1) * 2 ^ 971"
  proof (rule mult_left_mono)
    show "(2::int) ^ nat e \<le> 2 ^ 971" using e by (intro power_increasing) auto
  qed simp
  finally have "?r \<le> max_double" unfolding max_double_def .
  with nonneg x show ?thesis by (simp add: Let_def)
qed

lemma int_to_float_in_range:
  assumes "\<bar>i\<bar> \<le> max_double"
  shows "\<exists>y. int_to_float i = Inr y \<and> in_range y"
proof -
  have "in_range (round_to_float (i < 0) \<bar>i\<bar> 1)"
    using assms by (intro round_to_float_in_range) simp_all
  then show ?thesis
    unfolding int_to_float_def by (auto simp: in_range_def split: pyfloat.splits)
qed

lemma float_lit_95_100: "float_lit 95 100 = Finite False 8556839292003942 (- 53)"
  by (simp add: float_lit_def round_to_float_def float_exponent_def floor_log2_def
      rne_div_def compute_bitlen Let_def)

lemma float_mul_95_100_in_range:
  assumes "in_range y"
  shows "in_range (float_mul y (float_lit 95 100))"
proof -
  from assms obtain s m e where y: "y = Finite s m e" and m: "m < 2 ^ 53" and e: "e \<le> 971"
    by (auto simp: in_range_def split: pyfloat.splits)
  let ?k = "8556839292003942 :: int"
  let ?N = "int m * ?k * 2 ^ nat (e + - 53)" and ?D = "(2::int) ^ nat (- (e + - 53))"
  have mk: "int m * ?k \<le> (2 ^ 53 - 1) * 2 ^ 53"
    using m by (intro mult_mono) (simp_all add: nat_less_iff)
  have "?N \<le> max_double * ?D"
  proof (cases "53 \<le> e")
    case True
    then have D: "?D = 1" by simp
    have "?N \<le> ((2 ^ 53 - 1) * 2 ^ 53) * 2 ^ nat (e - 53)"
      using mk by (simp add: mult_right_mono)
    also have "\<dots> = (2 ^ 53 - 1) * 2 ^ (53 + nat (e - 53))"
      by (simp add: power_add)
    also have "\<dots> \<le> (2 ^ 53 - 1) * 2 ^ 971"
    proof (rule mult_left_mono)
      show "(2::int) ^ (53 + nat (e - 53)) \<le> 2 ^ 971"
        using e True by (intro power_increasing) auto
    qed simp
    finally have "?N \<le> max_double" unfolding max_double_def .
    then show ?thesis by (simp only: D mult_1_right)
  next
    case False
    then have "nat (e + - 53) = 0" by simp
    then have "?N = int m * ?k" by (simp only: power_0 mult_1_right)
    also have "\<dots> \<le> (2 ^ 53 - 1) * 2 ^ 53" by (rule mk)
    also have "\<dots> \<le> max_double" by (simp add: max_double_def)
    also have "\<dots> = max_double * 1" by simp
    also have "\<dots> \<le> max_double * ?D"
    proof (rule mult_left_mono)
      show "1 \<le> ?D" by simp
      show "0 \<le> max_double" by (simp add: max_double_def)
    qed
    finally show ?thesis .
  qed
  then have "in_range (round_to_float (s \<noteq> False) ?N ?D)"
    by (intro round_to_float_in_range) simp_all
  then show ?thesis by (simp add: y float_lit_95_100)
qed

subsection \<open>The optimized-route step never raises on a resolved route\<close>

lemma int_truediv_result:
  assumes "int_truediv i k = Inr x"
  shows "in_range x"
proof -
  from assms have k: "k \<noteq> 0" by (auto simp: int_truediv_def split: if_splits)
  let ?s = "(i < 0) \<noteq> (k < 0)"
  have x: "x = round_to_float ?s \<bar>i\<bar> \<bar>k\<bar>" and "x \<noteq> Infinity ?s"
    using assms k by (auto simp: int_truediv_def split: pyfloat.splits)
  then show ?thesis
    using round_to_float_cases [of "\<bar>i\<bar>" "\<bar>k\<bar>" ?s] k by auto
qed

lemma float_truediv_result:
  assumes "float_truediv x y = Inr z"
  shows "z = NaN \<or> (\<exists>s. z = Infinity s) \<or> in_range z"
proof (cases y)
  case (Finite t k f)
  show ?thesis
  proof (cases x)
    case (Finite s m e)
    with assms \<open>y = Finite t k f\<close> have k: "k \<noteq> 0"
      and z: "z = round_to_float (s \<noteq> t) (int m * 2 ^ nat (e - f)) (int k * 2 ^ nat (f - e))"
      by (auto split: if_splits)
    show ?thesis
      using round_to_float_cases [of "int m * 2 ^ nat (e - f)" "int k * 2 ^ nat (f - e)" "s \<noteq> t"] k
      unfolding z by auto
  qed (use assms Finite in \<open>auto split: if_splits\<close>)
next
  case (Infinity t)
  with assms show ?thesis by (cases x) (auto simp: in_range_def)
next
  case NaN
  with assms show ?thesis by (cases x) auto
qed

lemma py_truediv_result:
  assumes "py_truediv j k = Inr z"
  shows "z = NaN \<or> (\<exists>s. z = Infinity s) \<or> in_range z"
proof (cases j)
  case (JInt i)
  with assms show ?thesis using int_truediv_result by auto
next
  case (JBool b)
  with assms show ?thesis using int_truediv_result by auto
next
  case (JFloat x)
  with assms show ?thesis using float_truediv_result by (auto split: sum.splits)
qed (use assms in auto)

lemma py_round_Inr:
  assumes "py_round x = Inr n" "x = NaN \<or> (\<exists>s. x = Infinity s) \<or> in_range x"
  shows "\<bar>n\<bar> \<le> max_double"
  using assms py_round_in_range [of x] by auto

lemma route_of_feature_duration:
  assumes "route_of_feature f = Some r"
  shows "\<bar>duration_minutes r\<bar> \<le> max_double" and "emissions r = None"
proof -
  from assms obtain j x where "py_truediv j 60 = Inr x" "py_round x = Inr (duration_minutes r)"
    and em: "emissions r = None"
    unfolding route_of_feature_def by (auto simp: bind_eq_Some_conv)
  then show "\<bar>duration_minutes r\<bar> \<le> max_double"
    using py_round_Inr py_truediv_result by blast
  show "emissions r = None" by (rule em)
qed

lemma get_eco_route_feature:
  assumes "get_eco_route w origin destination key = Some r"
  shows "\<exists>f. route_of_feature f = Some r"
  using assms unfolding get_eco_route_def
  by (auto simp: bind_eq_Some_conv split: if_splits)

lemma simulate_optimized_route_total:
  assumes "\<bar>duration_minutes r\<bar> \<le> max_double" "emissions r = Some em"
  shows "\<exists>n. and_then (int_mul_float (duration_minutes r) (float_lit 95 100)) py_round = Inr n
     \<and> simulate_optimized_route r =
         Inr \<lparr>optimized_distance_km = distance_km r, optimized_duration_minutes = n,
              optimized_carbon_kg = float_mul (carbon_kg em) (float_lit 9 10)\<rparr>"
proof -
  from int_to_float_in_range [OF assms(1)] obtain y
    where y: "int_to_float (duration_minutes r) = Inr y" "in_range y" by blast
  from py_round_in_range [OF float_mul_95_100_in_range [OF y(2)]] obtain n
    where n: "py_round (float_mul y (float_lit 95 100)) = Inr n" by blast
  show ?thesis
    using y(1) n assms(2) unfolding simulate_optimized_route_def int_mul_float_def by simp
qed

subsection \<open>Reading the request\<close>

lemma request_fields_obj:
  assumes "map_of kvs ''api_keys'' = None \<and> ks = [] \<or> map_of kvs ''api_keys'' = Some (JObj ks)"
  shows "request_fields (JObj kvs) =
     Inr \<lparr>origin_coords = member_or_null kvs ''origin_coords'',
          destination_coords = member_or_null kvs ''destination_coords'',
          vehicle = member_or_null kvs ''vehicle'',
          eia_api_key = member_or_null ks ''EIA_API_KEY'',
          carbon_interface_api_key = member_or_null ks ''CARBON_INTERFACE_API_KEY'',
          weather_api_key = member_or_null ks ''WEATHER_API_KEY'',
          openrouteservice_api_key = member_or_null ks ''OPENROUTESERVICE_API_KEY'',
          openai_api_key = member_or_null ks ''OPENAI_API_KEY''\<rparr>"
proof -
  have "dict_get (JObj kvs) ''api_keys'' (JObj []) = Inr (JObj ks)"
    using assms by auto
  then show ?thesis
    unfolding request_fields_def by (simp add: member_or_null_def split: option.splits)
qed

text \<open>
  C6, as amended. No request that fails validation reaches an adapter: whatever the body,
  if it does not pass validation then no adapter is called. A body that is a JSON object,
  with \<open>api_keys\<close> absent or an object, in which one of the five credentials is missing
  (absent, or present with a falsy value), or in which either coordinate pair is missing,
  is answered with status 400 and one of the two validation messages. A body whose
  \<open>api_keys\<close> is \<open>null\<close> is not: reading a credential from it raises, and the answer has
  status 500.
\<close>

theorem validation_fails_fast:
  "(\<not> passes_validation data \<longrightarrow> fst (get_route_recommendation w data) = [])
   \<and> (\<forall>kvs ks. data = JObj kvs
        \<and> (map_of kvs ''api_keys'' = None \<and> ks = [] \<or> map_of kvs ''api_keys'' = Some (JObj ks))
        \<and> ((\<exists>k \<in> set credential_names. \<not> py_truthy (member_or_null ks k))
           \<or> \<not> py_truthy (member_or_null kvs ''origin_coords'')
           \<or> \<not> py_truthy (member_or_null kvs ''destination_coords'')) \<longrightarrow>
        fst (get_route_recommendation w data) = []
        \<and> status (snd (get_route_recommendation w data)) = 400
        \<and> payload (snd (get_route_recommendation w data)) \<in>
            {Error_payload ''All five API keys are required.'',
             Error_payload ''Both origin_coords and destination_coords must be provided.''})"
proof -
  have unvalidated: "fst (get_route_recommendation w data) = []" if "\<not> passes_validation data"
    using that unfolding get_route_recommendation_def passes_validation_def
    by (auto split: sum.splits)
  have rejected: "fst (get_route_recommendation w (JObj kvs)) = []
     \<and> status (snd (get_route_recommendation w (JObj kvs))) = 400
     \<and> payload (snd (get_route_recommendation w (JObj kvs))) \<in>
         {Error_payload ''All five API keys are required.'',
          Error_payload ''Both origin_coords and destination_coords must be provided.''}"
    if keys: "map_of kvs ''api_keys'' = None \<and> ks = [] \<or> map_of kvs ''api_keys'' = Some (JObj ks)"
      and missing: "(\<exists>k \<in> set credential_names. \<not> py_truthy (member_or_null ks k))
         \<or> \<not> py_truthy (member_or_null kvs ''origin_coords'')
         \<or> \<not> py_truthy (member_or_null kvs ''destination_coords'')"
    for kvs ks
    using missing unfolding get_route_recommendation_def request_fields_obj [OF keys]
    by (auto simp: credential_names_def)
  from unvalidated rejected show ?thesis by blast
qed

theorem validation_fails_fast_witness:
  "\<not> passes_validation (JObj (sample_members sample_vehicle (tl sample_keys)))
   \<and> map_of (sample_members sample_vehicle (tl sample_keys)) ''api_keys'' =
       Some (JObj (tl sample_keys))
   \<and> \<not> py_truthy (member_or_null (tl sample_keys) ''EIA_API_KEY'')
   \<and> fst (get_route_recommendation sample_world
         (JObj (sample_members sample_vehicle (tl sample_keys)))) = []
   \<and> snd (get_route_recommendation sample_world
         (JObj (sample_members sample_vehicle (tl sample_keys)))) =
       \<lparr>status = 400, payload = Error_payload ''All five API keys are required.''\<rparr>"
proof -
  let ?kvs = "sample_members sample_vehicle (tl sample_keys)"
  have keys: "map_of ?kvs ''api_keys'' = Some (JObj (tl sample_keys))"
    by (simp add: sample_members_def)
  have missing: "\<not> py_truthy (member_or_null (tl sample_keys) ''EIA_API_KEY'')"
    by (simp add: sample_keys_def member_or_null_def)
  have unvalidated: "\<not> passes_validation (JObj ?kvs)"
    using missing
    unfolding passes_validation_def
      request_fields_obj [of ?kvs "tl sample_keys", OF disjI2, OF keys]
    by simp
  have listed: "''EIA_API_KEY'' \<in> set credential_names"
    by (simp add: credential_names_def)
  from validation_fails_fast [where data = "JObj ?kvs" and w = sample_world]
    keys missing listed
  have "fst (get_route_recommendation sample_world (JObj ?kvs)) = []
     \<and> status (snd (get_route_recommendation sample_world (JObj ?kvs))) = 400
     \<and> payload (snd (get_route_recommendation sample_world (JObj ?kvs))) \<in>
         {Error_payload ''All five API keys are required.'',
          Error_payload ''Both origin_coords and destination_coords must be provided.''}"
    by blast
  moreover have "snd (get_route_recommendation sample_world (JObj ?kvs)) =
      \<lparr>status = 400, payload = Error_payload ''All five API keys are required.''\<rparr>"
    using missing
    unfolding get_route_recommendation_def
      request_fields_obj [of ?kvs "tl sample_keys", OF disjI2, OF keys]
    by simp
  ultimately show ?thesis using keys missing unvalidated by simp
qed

theorem validation_fails_fast_counterexample:
  "getitem_key null_keys_request ''api_keys'' = Inr JNull
   \<and> get_route_recommendation sample_world null_keys_request =
       ([], \<lparr>status = 500, payload = Internal_server_error AttributeError\<rparr>)"
  unfolding get_route_recommendation_def request_fields_def null_keys_request_def
  by simp

subsection \<open>A request whose route and energy price resolved\<close>

lemmas float_eval =
  float_lit_def round_to_float_def float_exponent_def floor_log2_def rne_div_def
  compute_bitlen Let_def int_truediv_def int_to_float_def int_mul_float_def

lemma resolved_route_duration:
  assumes "get_eco_route w origin destination key = Some r"
  shows "\<bar>duration_minutes r\<bar> \<le> max_double" and "emissions r = None"
  using get_eco_route_feature [OF assms] route_of_feature_duration by blast+

lemma resolved_pipeline:
  assumes valid: "passes_validation data"
    and fields: "request_fields data = Inr rq"
    and route: "get_eco_route w (origin_coords rq) (destination_coords rq)
        (openrouteservice_api_key rq) = Some r"
    and energy: "get_energy_data w (eia_api_key rq) = Some e"
  obtains (no_prompt) err where
      "generate_openai_prompt w
         (r\<lparr>emissions := Some (resolved_emissions w (distance_km r) (carbon_interface_api_key rq))\<rparr>)
         e (resolved_emissions w (distance_km r) (carbon_interface_api_key rq))
         (case get_weather_data w ''San Francisco'' (weather_api_key rq) of
            None \<Rightarrow> \<lparr>temperature = JInt 20, weather = JStr ''clear'', wind_speed = JInt 5\<rparr>
                           | Some found \<Rightarrow> found)
         (case get_weather_data w ''Los Angeles'' (weather_api_key rq) of
            None \<Rightarrow> \<lparr>temperature = JInt 25, weather = JStr ''clear'', wind_speed = JInt 5\<rparr>
                           | Some found \<Rightarrow> found)
         (vehicle rq) = Inl err"
      "get_route_recommendation w data =
         (calls_through_emissions rq r, \<lparr>status = 500, payload = Internal_server_error err\<rparr>)"
  | (prompt) p n where
      "generate_openai_prompt w
         (r\<lparr>emissions := Some (resolved_emissions w (distance_km r) (carbon_interface_api_key rq))\<rparr>)
         e (resolved_emissions w (distance_km r) (carbon_interface_api_key rq))
         (case get_weather_data w ''San Francisco'' (weather_api_key rq) of
            None \<Rightarrow> \<lparr>temperature = JInt 20, weather = JStr ''clear'', wind_speed = JInt 5\<rparr>
                           | Some found \<Rightarrow> found)
         (case get_weather_data w ''Los Angeles'' (weather_api_key rq) of
            None \<Rightarrow> \<lparr>temperature = JInt 25, weather = JStr ''clear'', wind_speed = JInt 5\<rparr>
                           | Some found \<Rightarrow> found)
         (vehicle rq) = Inr p"
      "and_then (int_mul_float (duration_minutes r) (float_lit 95 100)) py_round = Inr n"
      "get_route_recommendation w data =
         (calls_through_emissions rq r @ [Recommendation_call p (openai_api_key rq)],
          \<lparr>status = 200, payload =
             Result_payload (coordinates r) (directions r)
               \<lparr>original =
                  \<lparr>estimate_distance_km = distance_km r,
                   estimate_duration_minutes = duration_minutes r,
                   carbon_emissions_kg =
                     carbon_kg (resolved_emissions w (distance_km r) (carbon_interface_api_key rq))\<rparr>,
                optimized =
                  \<lparr>estimate_distance_km = distance_km r,
                   estimate_duration_minutes = n,
                   carbon_emissions_kg =
                     float_mul (carbon_kg (resolved_emissions w (distance_km r)
                       (carbon_interface_api_key rq))) (float_lit 9 10)\<rparr>\<rparr>
               (get_openai_recommendation w p (openai_api_key rq))\<rparr>)"
proof -
  let ?c = "resolved_emissions w (distance_km r) (carbon_interface_api_key rq)"
  let ?r = "r\<lparr>emissions := Some ?c\<rparr>"
  from resolved_route_duration(1) [OF route]
  have "\<bar>duration_minutes ?r\<bar> \<le> max_double" by simp
  from simulate_optimized_route_total [OF this, of ?c] obtain n where
    n: "and_then (int_mul_float (duration_minutes r) (float_lit 95 100)) py_round = Inr n"
    and sim: "simulate_optimized_route ?r =
         Inr \<lparr>optimized_distance_km = distance_km r, optimized_duration_minutes = n,
              optimized_carbon_kg = float_mul (carbon_kg ?c) (float_lit 9 10)\<rparr>"
    by auto
  from valid fields have keys: "list_all py_truthy
            [eia_api_key rq, carbon_interface_api_key rq, weather_api_key rq,
             openrouteservice_api_key rq, openai_api_key rq]"
    and coords: "py_truthy (origin_coords rq)" "py_truthy (destination_coords rq)"
    by (simp_all add: passes_validation_def)
  show ?thesis
  proof (cases "generate_openai_prompt w ?r e ?c
         (case get_weather_data w ''San Francisco'' (weather_api_key rq) of
            None \<Rightarrow> \<lparr>temperature = JInt 20, weather = JStr ''clear'', wind_speed = JInt 5\<rparr>
                           | Some found \<Rightarrow> found)
         (case get_weather_data w ''Los Angeles'' (weather_api_key rq) of
            None \<Rightarrow> \<lparr>temperature = JInt 25, weather = JStr ''clear'', wind_speed = JInt 5\<rparr>
                           | Some found \<Rightarrow> found)
         (vehicle rq)")
    case (Inl err)
    have "get_route_recommendation w data =
         (calls_through_emissions rq r, \<lparr>status = 500, payload = Internal_server_error err\<rparr>)"
      unfolding get_route_recommendation_def calls_through_emissions_def
      using keys coords by (simp add: fields route energy sim Inl Let_def)
    with Inl show ?thesis by (rule no_prompt)
  next
    case (Inr p)
    show ?thesis
      apply (rule prompt [OF Inr n])
      unfolding get_route_recommendation_def calls_through_emissions_def
      using keys coords by (simp add: fields route energy sim Inr Let_def)
  qed
qed

lemma validated:
  assumes "passes_validation data" "request_fields data = Inr rq"
  shows "list_all py_truthy
            [eia_api_key rq, carbon_interface_api_key rq, weather_api_key rq,
             openrouteservice_api_key rq, openai_api_key rq]"
    and "py_truthy (origin_coords rq)" and "py_truthy (destination_coords rq)"
  using assms by (simp_all add: passes_validation_def)

lemma route_failure:
  assumes "passes_validation data" "request_fields data = Inr rq"
    and "get_eco_route w (origin_coords rq) (destination_coords rq)
        (openrouteservice_api_key rq) = None"
  shows "get_route_recommendation w data =
         ([Route_call (origin_coords rq) (destination_coords rq) (openrouteservice_api_key rq)],
          \<lparr>status = 400, payload =
             Error_payload ''Unable to calculate route with provided coordinates.''\<rparr>)"
  unfolding get_route_recommendation_def
  using validated [OF assms(1,2)] by (simp add: assms(2,3))

lemma energy_failure:
  assumes "passes_validation data" "request_fields data = Inr rq"
    and "get_eco_route w (origin_coords rq) (destination_coords rq)
        (openrouteservice_api_key rq) = Some r"
    and "get_energy_data w (eia_api_key rq) = None"
  shows "get_route_recommendation w data =
         ([Route_call (origin_coords rq) (destination_coords rq) (openrouteservice_api_key rq),
           Energy_call (eia_api_key rq)],
          \<lparr>status = 400, payload =
             Error_payload ''Unable to retrieve energy data from EIA API.''\<rparr>)"
  unfolding get_route_recommendation_def
  using validated [OF assms(1,2)] by (simp add: assms(2,3,4))

lemma prompt_built:
  "has_vehicle_profile v \<longleftrightarrow> (\<exists>p. generate_openai_prompt w r e c wo wd v = Inr p)"
  unfolding has_vehicle_profile_def generate_openai_prompt_def
  by (cases v) (auto split: option.splits)

lemma prompt_not_built:
  assumes "generate_openai_prompt w r e c wo wd v = Inl err"
  shows "err = TypeError \<or> err = KeyError"
  using assms unfolding generate_openai_prompt_def
  by (cases v) (auto split: option.splits)

lemma called_resolved:
  assumes "c \<in> set (fst (get_route_recommendation w data))"
    and "adapter_of c \<noteq> Route" and "adapter_of c \<noteq> Energy"
  shows "\<exists>rq r e. passes_validation data \<and> request_fields data = Inr rq
        \<and> get_eco_route w (origin_coords rq) (destination_coords rq)
            (openrouteservice_api_key rq) = Some r
        \<and> get_energy_data w (eia_api_key rq) = Some e"
  using assms unfolding get_route_recommendation_def passes_validation_def
  by (auto simp: Let_def split: sum.splits option.splits if_splits)

lemma emissions_call_resolved:
  assumes "Emissions_call d key \<in> set (fst (get_route_recommendation w data))"
  obtains rq r e where "passes_validation data" "request_fields data = Inr rq"
    "get_eco_route w (origin_coords rq) (destination_coords rq)
            (openrouteservice_api_key rq) = Some r"
    "get_energy_data w (eia_api_key rq) = Some e"
    "d = distance_km r" "key = carbon_interface_api_key rq"
proof -
  from called_resolved [OF assms] obtain rq r e where
    a: "passes_validation data" "request_fields data = Inr rq"
    "get_eco_route w (origin_coords rq) (destination_coords rq)
            (openrouteservice_api_key rq) = Some r"
    "get_energy_data w (eia_api_key rq) = Some e"
    by auto
  have "d = distance_km r \<and> key = carbon_interface_api_key rq"
  proof (rule resolved_pipeline [OF a], goal_cases)
    case (1 err)
    with assms show ?case by (auto simp: calls_through_emissions_def)
  next
    case (2 p n)
    with assms show ?case by (auto simp: calls_through_emissions_def)
  qed
  with a show ?thesis using that by blast
qed

lemma recommendation_call_resolved:
  assumes "Recommendation_call p key \<in> set (fst (get_route_recommendation w data))"
  obtains rq r e n where "passes_validation data" "request_fields data = Inr rq"
    "get_eco_route w (origin_coords rq) (destination_coords rq)
            (openrouteservice_api_key rq) = Some r"
    "get_energy_data w (eia_api_key rq) = Some e"
    "key = openai_api_key rq"
    "and_then (int_mul_float (duration_minutes r) (float_lit 95 100)) py_round = Inr n"
    "snd (get_route_recommendation w data) =
          \<lparr>status = 200, payload =
             Result_payload (coordinates r) (directions r)
               \<lparr>original =
                  \<lparr>estimate_distance_km = distance_km r,
                   estimate_duration_minutes = duration_minutes r,
                   carbon_emissions_kg =
                     carbon_kg (resolved_emissions w (distance_km r) (carbon_interface_api_key rq))\<rparr>,
                optimized =
                  \<lparr>estimate_distance_km = distance_km r,
                   estimate_duration_minutes = n,
                   carbon_emissions_kg =
                     float_mul (carbon_kg (resolved_emissions w (distance_km r)
                       (carbon_interface_api_key rq))) (float_lit 9 10)\<rparr>\<rparr>
               (get_openai_recommendation w p key)\<rparr>"
proof -
  from called_resolved [OF assms] obtain rq r e where
    a: "passes_validation data" "request_fields data = Inr rq"
    "get_eco_route w (origin_coords rq) (destination_coords rq)
            (openrouteservice_api_key rq) = Some r"
    "get_energy_data w (eia_api_key rq) = Some e"
    by auto
  show ?thesis
  proof (rule resolved_pipeline [OF a], goal_cases)
    case (1 err)
    with assms show ?case by (simp add: calls_through_emissions_def)
  next
    case (2 p' n)
    with assms have "p' = p" "key = openai_api_key rq"
      by (auto simp: calls_through_emissions_def)
    with 2 a show ?case using that by simp
  qed
qed

subsection \<open>The route and the emissions adapter\<close>

lemma get_eco_route_unfold:
  assumes "swap_axes origin = Some fo" "swap_axes destination = Some fd"
  shows "get_eco_route w origin destination key =
     (case ors_directions w key (directions_request fo fd) of
        None \<Rightarrow> None
      | Some response \<Rightarrow>
          if status_code response \<noteq> 200 then None
          else case json_body response of
            None \<Rightarrow> None
          | Some route_json \<Rightarrow>
              (case first_feature route_json of
                 None \<Rightarrow> None
               | Some route_feature \<Rightarrow> route_of_feature route_feature))"
  unfolding get_eco_route_def first_feature_def directions_request_def assms
  by (auto split: option.splits Option.bind_splits)

lemma route_of_feature_path:
  assumes "route_of_feature f = Some r"
  shows "\<exists>geometry coords pairs.
      getitem_key f ''geometry'' = Inr geometry
      \<and> getitem_key geometry ''coordinates'' = Inr coords
      \<and> py_iter coords = Inr pairs
      \<and> those (map swap_axes pairs) = Some (coordinates r)"
  using assms unfolding route_of_feature_def
  by (auto simp: bind_eq_Some_conv)

lemma swap_axes_pair: "swap_axes (JList (lon # lat # rest)) = Some (JList [lat, lon])"
  by (simp add: swap_axes_def)

lemma service_emissions_consistent:
  "calculate_emissions w d key = Some em \<Longrightarrow> py_truediv (carbon_g em) 1000 = Inr (carbon_kg em)"
  unfolding calculate_emissions_def
  by (auto simp: bind_eq_Some_conv split: if_splits)

lemma no_emissions_resolved:
  "resolved_emissions no_emissions_world d key = fallback_emissions d"
  unfolding resolved_emissions_def no_emissions_world_def calculate_emissions_def
  by simp

subsection \<open>The sample world\<close>

lemma sample_request_fields:
  "request_fields (JObj (sample_members veh sample_keys)) = Inr (sample_fields veh)"
  unfolding request_fields_def sample_members_def sample_keys_def sample_fields_def
  by simp

lemma sample_passes_validation:
  "passes_validation (JObj (sample_members veh sample_keys))"
  unfolding passes_validation_def sample_request_fields
  by (simp add: sample_fields_def)

lemma sample_get_eco_route:
  assumes "ors_directions w = ors_directions sample_world"
  shows "get_eco_route w (origin_coords (sample_fields veh))
     (destination_coords (sample_fields veh)) key = Some sample_route"
  unfolding get_eco_route_def route_of_feature_def assms sample_world_def sample_route_json_def
    sample_feature_def sample_route_def swap_axes_def segment_instructions_def
    step_instructions_def sample_fields_def
  by (simp add: float_eval)

lemma sample_get_energy_data:
  assumes "eia_prices w = eia_prices sample_world"
  shows "get_energy_data w key =
     Some \<lparr>price_per_gallon = JStr ''3.5'', period = JStr ''2024-01-01''\<rparr>"
  unfolding get_energy_data_def assms sample_world_def by simp

lemma sample_get_weather_data:
  assumes "openweathermap w = openweathermap sample_world"
  shows "get_weather_data w ''San Francisco'' key =
       Some \<lparr>temperature = JInt 15, weather = JStr ''fog'', wind_speed = JInt 3\<rparr>"
    and "get_weather_data w ''Los Angeles'' key = None"
  unfolding get_weather_data_def assms sample_world_def by simp_all

lemma sample_calculate_emissions:
  assumes "carbon_estimates w = carbon_estimates sample_world"
  shows "calculate_emissions w d key =
     Some \<lparr>carbon_g = JInt 50000, carbon_kg = float_lit 50 1\<rparr>"
  unfolding calculate_emissions_def assms sample_world_def by (simp add: float_eval)

lemma sample_chat_reply:
  assumes "chat_completion w = chat_completion sample_world" "strip w = strip sample_world"
  shows "chat_reply w p key = Some ''Drive smoothly.''"
  unfolding chat_reply_def assms sample_world_def by simp

lemma failed_chat_reply:
  "chat_reply (w\<lparr>chat_completion := \<lambda>key prompt. None\<rparr>) p key = None"
  unfolding chat_reply_def by simp

lemma failed_calculate_emissions:
  "calculate_emissions (w\<lparr>carbon_estimates := \<lambda>key body. None\<rparr>) d key = None"
  unfolding calculate_emissions_def by simp

lemma failed_get_energy_data:
  "get_energy_data (w\<lparr>eia_prices := \<lambda>key. None\<rparr>) key = None"
  unfolding get_energy_data_def by simp

lemma failed_get_eco_route:
  "get_eco_route (w\<lparr>ors_directions := \<lambda>key body. None\<rparr>) origin destination key = None"
  unfolding get_eco_route_def by (simp split: Option.bind_split)

lemma sample_vehicle_profile: "has_vehicle_profile sample_vehicle"
  by (simp add: has_vehicle_profile_def sample_vehicle_def)

lemma sample_resolved:
  assumes "ors_directions w = ors_directions sample_world"
    and "eia_prices w = eia_prices sample_world"
  shows "passes_validation (JObj (sample_members veh sample_keys))"
    and "request_fields (JObj (sample_members veh sample_keys)) = Inr (sample_fields veh)"
    and "get_eco_route w (origin_coords (sample_fields veh))
      (destination_coords (sample_fields veh))
      (openrouteservice_api_key (sample_fields veh)) = Some sample_route"
    and "get_energy_data w (eia_api_key (sample_fields veh)) =
      Some \<lparr>price_per_gallon = JStr ''3.5'', period = JStr ''2024-01-01''\<rparr>"
  using sample_passes_validation sample_request_fields sample_get_eco_route [OF assms(1)]
    sample_get_energy_data [OF assms(2)]
  by blast+

lemma sample_calls_through_emissions:
  assumes "ors_directions w = ors_directions sample_world"
    and "eia_prices w = eia_prices sample_world"
  shows "take 5 (fst (get_route_recommendation w (JObj (sample_members veh sample_keys)))) =
     calls_through_emissions (sample_fields veh) sample_route"
proof (rule resolved_pipeline [OF sample_resolved [OF assms, of veh]], goal_cases)
  case (1 err)
  then show ?case by (simp add: calls_through_emissions_def)
next
  case (2 p n)
  then show ?case by (simp add: calls_through_emissions_def)
qed

lemma sample_recommendation_call:
  assumes "ors_directions w = ors_directions sample_world"
    and "eia_prices w = eia_prices sample_world"
  shows "\<exists>p. Recommendation_call p (JStr ''o'') \<in>
     set (fst (get_route_recommendation w (JObj (sample_members sample_vehicle sample_keys))))"
proof (rule resolved_pipeline [OF sample_resolved [OF assms, of sample_vehicle]], goal_cases)
  case (1 err)
  then have "\<not> has_vehicle_profile (vehicle (sample_fields sample_vehicle))"
    by (metis sum.distinct(1) prompt_built)
  then show ?case by (simp add: sample_fields_def sample_vehicle_profile)
next
  case (2 p n)
  then show ?case by (auto simp: sample_fields_def)
qed

section \<open>The claims\<close>

text \<open>
  C1. On a request that passes validation, a failing route adapter gives status 400 with
  the route adapter as the only adapter called; a failing energy adapter gives status 400
  with no adapter called beyond the route and the energy adapter, so that weather,
  emissions and recommendation are skipped.
\<close>

theorem fatal_failures_abort:
  assumes "passes_validation data" and "request_fields data = Inr rq"
  shows "(get_eco_route w (origin_coords rq) (destination_coords rq)
            (openrouteservice_api_key rq) = None \<longrightarrow>
          get_route_recommendation w data =
            ([Route_call (origin_coords rq) (destination_coords rq)
                (openrouteservice_api_key rq)],
             \<lparr>status = 400, payload =
                Error_payload ''Unable to calculate route with provided coordinates.''\<rparr>))
     \<and> (get_energy_data w (eia_api_key rq) = None \<longrightarrow>
          status (snd (get_route_recommendation w data)) = 400
          \<and> (map adapter_of (fst (get_route_recommendation w data)) = [Route]
             \<or> map adapter_of (fst (get_route_recommendation w data)) = [Route, Energy]))"
proof (cases "get_eco_route w (origin_coords rq) (destination_coords rq)
            (openrouteservice_api_key rq)")
  case None
  show ?thesis by (simp add: route_failure [OF assms None] None)
next
  case (Some r)
  show ?thesis using energy_failure [OF assms Some] by (auto simp: Some)
qed

theorem fatal_failures_abort_witness:
  "passes_validation (JObj (sample_members sample_vehicle sample_keys))
   \<and> get_route_recommendation (sample_world\<lparr>ors_directions := \<lambda>key body. None\<rparr>)
        (JObj (sample_members sample_vehicle sample_keys)) =
      ([Route_call (JList [JInt 37, JInt (- 122)]) (JList [JInt 34, JInt (- 118)]) (JStr ''r'')],
       \<lparr>status = 400, payload =
          Error_payload ''Unable to calculate route with provided coordinates.''\<rparr>)
   \<and> get_energy_data (sample_world\<lparr>eia_prices := \<lambda>key. None\<rparr>) (JStr ''e'') = None
   \<and> status (snd (get_route_recommendation (sample_world\<lparr>eia_prices := \<lambda>key. None\<rparr>)
        (JObj (sample_members sample_vehicle sample_keys)))) = 400"
proof -
  let ?data = "JObj (sample_members sample_vehicle sample_keys)"
  have v: "passes_validation ?data" by (rule sample_passes_validation)
  have f: "request_fields ?data = Inr (sample_fields sample_vehicle)"
    by (rule sample_request_fields)
  note route = fatal_failures_abort [OF v f,
      where w = "sample_world\<lparr>ors_directions := \<lambda>key body. None\<rparr>"]
  note energy = fatal_failures_abort [OF v f,
      where w = "sample_world\<lparr>eia_prices := \<lambda>key. None\<rparr>"]
  from route energy v show ?thesis
    by (simp add: failed_get_eco_route failed_get_energy_data sample_fields_def)
qed

text \<open>
  C2. On a request that passes validation and whose route and energy price resolved, the
  pipeline goes on through both weather lookups to the emissions adapter whatever the
  weather adapter returns. The conditions it then holds for a location are the fetched
  ones when the lookup for that location succeeded, and otherwise 20, "clear", 5 for the
  origin and 25, "clear", 5 for the destination: when the request carries a vehicle
  profile, the prompt sent to the recommendation adapter is the one built from exactly
  these conditions, and the response has status 200.
\<close>

theorem weather_failures_substituted:
  assumes "passes_validation data" and "request_fields data = Inr rq"
    and "get_eco_route w (origin_coords rq) (destination_coords rq)
        (openrouteservice_api_key rq) = Some r"
    and "get_energy_data w (eia_api_key rq) = Some e"
  shows "take 5 (fst (get_route_recommendation w data)) = calls_through_emissions rq r
     \<and> (has_vehicle_profile (vehicle rq) \<longrightarrow>
          (\<exists>p. generate_openai_prompt w
                 (r\<lparr>emissions := Some (resolved_emissions w (distance_km r)
                    (carbon_interface_api_key rq))\<rparr>)
                 e (resolved_emissions w (distance_km r) (carbon_interface_api_key rq))
                 (case get_weather_data w ''San Francisco'' (weather_api_key rq) of
                    None \<Rightarrow> \<lparr>temperature = JInt 20, weather = JStr ''clear'', wind_speed = JInt 5\<rparr>
                  | Some found \<Rightarrow> found)
                 (case get_weather_data w ''Los Angeles'' (weather_api_key rq) of
                    None \<Rightarrow> \<lparr>temperature = JInt 25, weather = JStr ''clear'', wind_speed = JInt 5\<rparr>
                  | Some found \<Rightarrow> found)
                 (vehicle rq) = Inr p
             \<and> fst (get_route_recommendation w data) =
                 calls_through_emissions rq r @ [Recommendation_call p (openai_api_key rq)]
             \<and> status (snd (get_route_recommendation w data)) = 200))"
proof (rule resolved_pipeline [OF assms], goal_cases)
  case (1 err)
  then have "\<not> has_vehicle_profile (vehicle rq)"
    by (metis sum.distinct(1) prompt_built)
  then show ?case by (simp add: 1(2) calls_through_emissions_def)
next
  case (2 p n)
  then show ?case by (auto simp: calls_through_emissions_def)
qed

theorem weather_failures_substituted_witness:
  "get_weather_data sample_world ''San Francisco'' (JStr ''w'') =
     Some \<lparr>temperature = JInt 15, weather = JStr ''fog'', wind_speed = JInt 3\<rparr>
   \<and> get_weather_data sample_world ''Los Angeles'' (JStr ''w'') = None
   \<and> (\<exists>p. generate_openai_prompt sample_world
          (sample_route\<lparr>emissions :=
             Some \<lparr>carbon_g = JInt 50000, carbon_kg = float_lit 50 1\<rparr>\<rparr>)
          \<lparr>price_per_gallon = JStr ''3.5'', period = JStr ''2024-01-01''\<rparr>
          \<lparr>carbon_g = JInt 50000, carbon_kg = float_lit 50 1\<rparr>
          \<lparr>temperature = JInt 15, weather = JStr ''fog'', wind_speed = JInt 3\<rparr>
          \<lparr>temperature = JInt 25, weather = JStr ''clear'', wind_speed = JInt 5\<rparr>
          sample_vehicle = Inr p
        \<and> fst (get_route_recommendation sample_world
              (JObj (sample_members sample_vehicle sample_keys))) =
            calls_through_emissions (sample_fields sample_vehicle) sample_route
              @ [Recommendation_call p (JStr ''o'')]
        \<and> status (snd (get_route_recommendation sample_world
              (JObj (sample_members sample_vehicle sample_keys)))) = 200)"
proof -
  let ?data = "JObj (sample_members sample_vehicle sample_keys)"
  let ?rq = "sample_fields sample_vehicle"
  have v: "passes_validation ?data" by (rule sample_passes_validation)
  have f: "request_fields ?data = Inr ?rq" by (rule sample_request_fields)
  have r: "get_eco_route sample_world (origin_coords ?rq) (destination_coords ?rq)
      (openrouteservice_api_key ?rq) = Some sample_route"
    by (rule sample_get_eco_route) simp
  have e: "get_energy_data sample_world (eia_api_key ?rq) =
      Some \<lparr>price_per_gallon = JStr ''3.5'', period = JStr ''2024-01-01''\<rparr>"
    by (rule sample_get_energy_data) simp
  have profile: "has_vehicle_profile (vehicle ?rq)"
    by (simp add: sample_fields_def sample_vehicle_profile)
  from weather_failures_substituted [OF v f r e] profile show ?thesis
    by (simp add: sample_get_weather_data [OF refl] sample_calculate_emissions [OF refl]
        resolved_emissions_def sample_fields_def)
qed

text \<open>
  C4. For a route whose duration is within the range of the doubles, as the duration of
  every route the route adapter returns is (\<open>resolved_route_duration\<close>), and with emissions
  attached, the optimized estimate is produced: its distance is the route's, its duration
  is \<open>round(duration_minutes * 0.95)\<close> and its emissions are \<open>carbon_kg * 0.9\<close>, in the
  arithmetic of Python's \<open>int\<close> and \<open>float\<close>. The witness is the route of 559 km in 300
  minutes with 50.0 kg: 285 minutes and 45.0 kg.
\<close>

theorem optimized_route_derivation:
  assumes "\<bar>duration_minutes r\<bar> \<le> max_double" and "emissions r = Some em"
  shows "\<exists>n. and_then (int_mul_float (duration_minutes r) (float_lit 95 100)) py_round = Inr n
     \<and> simulate_optimized_route r =
         Inr \<lparr>optimized_distance_km = distance_km r, optimized_duration_minutes = n,
              optimized_carbon_kg = float_mul (carbon_kg em) (float_lit 9 10)\<rparr>"
  using assms by (rule simulate_optimized_route_total)

theorem optimized_route_derivation_witness:
  "\<bar>duration_minutes sample_route\<bar> \<le> max_double
   \<and> duration_minutes sample_route = 300
   \<and> simulate_optimized_route
        (sample_route\<lparr>emissions := Some \<lparr>carbon_g = JInt 50000, carbon_kg = float_lit 50 1\<rparr>\<rparr>) =
      Inr \<lparr>optimized_distance_km = float_lit 559 1, optimized_duration_minutes = 285,
           optimized_carbon_kg = float_lit 45 1\<rparr>"
proof -
  have range: "\<bar>duration_minutes (sample_route\<lparr>emissions :=
      Some \<lparr>carbon_g = JInt 50000, carbon_kg = float_lit 50 1\<rparr>\<rparr>)\<bar> \<le> max_double"
    by (simp add: sample_route_def max_double_def)
  have rounded: "and_then (int_mul_float 300 (float_lit 95 100)) py_round = Inr 285"
    by (simp add: float_eval)
  have scaled: "float_mul (float_lit 50 1) (float_lit 9 10) = float_lit 45 1"
    by (simp add: float_eval)
  show ?thesis
    using optimized_route_derivation [OF range, of "\<lparr>carbon_g = JInt 50000, carbon_kg = float_lit 50 1\<rparr>"]
      range rounded scaled
    by (simp add: sample_route_def)
qed

text \<open>
  C8. Whatever the request and the world, the weather lookups among the adapter calls are
  either none or exactly two, for "San Francisco" and then for "Los Angeles"; they are the
  latter whenever the request passes validation and its route and energy price resolve.
  No coordinate of the request enters a weather lookup.
\<close>

theorem fixed_weather_locations:
  "(weather_locations (fst (get_route_recommendation w data)) = []
    \<or> weather_locations (fst (get_route_recommendation w data)) =
        [''San Francisco'', ''Los Angeles''])
   \<and> (\<forall>rq r e. passes_validation data \<and> request_fields data = Inr rq
        \<and> get_eco_route w (origin_coords rq) (destination_coords rq)
            (openrouteservice_api_key rq) = Some r
        \<and> get_energy_data w (eia_api_key rq) = Some e \<longrightarrow>
        weather_locations (fst (get_route_recommendation w data)) =
          [''San Francisco'', ''Los Angeles''])"
proof -
  have resolved: "weather_locations (fst (get_route_recommendation w data)) =
      [''San Francisco'', ''Los Angeles'']"
    if "passes_validation data" "request_fields data = Inr rq"
      "get_eco_route w (origin_coords rq) (destination_coords rq)
            (openrouteservice_api_key rq) = Some r"
      "get_energy_data w (eia_api_key rq) = Some e" for rq r e
    by (rule resolved_pipeline [OF that]) (simp_all add: calls_through_emissions_def)
  have "weather_locations (fst (get_route_recommendation w data)) = []
   \<or> (\<exists>rq r e. passes_validation data \<and> request_fields data = Inr rq
        \<and> get_eco_route w (origin_coords rq) (destination_coords rq)
            (openrouteservice_api_key rq) = Some r
        \<and> get_energy_data w (eia_api_key rq) = Some e)"
    unfolding get_route_recommendation_def passes_validation_def
    by (auto simp: Let_def split: sum.splits option.splits)
  with resolved show ?thesis by blast
qed

theorem fixed_weather_locations_witness:
  "weather_locations (fst (get_route_recommendation sample_world
      (JObj (sample_members sample_vehicle sample_keys)))) = [''San Francisco'', ''Los Angeles'']"
proof -
  let ?data = "JObj (sample_members sample_vehicle sample_keys)"
  let ?rq = "sample_fields sample_vehicle"
  have v: "passes_validation ?data" by (rule sample_passes_validation)
  have f: "request_fields ?data = Inr ?rq" by (rule sample_request_fields)
  have r: "get_eco_route sample_world (origin_coords ?rq) (destination_coords ?rq)
      (openrouteservice_api_key ?rq) = Some sample_route"
    by (rule sample_get_eco_route) simp
  have e: "get_energy_data sample_world (eia_api_key ?rq) =
      Some \<lparr>price_per_gallon = JStr ''3.5'', period = JStr ''2024-01-01''\<rparr>"
    by (rule sample_get_energy_data) simp
  from fixed_weather_locations [where w = sample_world and data = ?data] v f r e
  show ?thesis by blast
qed

text \<open>
  C10. A request that passes validation but carries no vehicle profile (no \<open>vehicle\<close>
  member, or one that is not an object with \<open>type\<close>, \<open>efficiency\<close> and \<open>fuel_type\<close>) is not
  rejected by the validation: when its route and energy price resolve, the route, energy,
  both weather and the emissions adapter are called, the recommendation adapter is not,
  and building the prompt raises \<open>TypeError\<close> or \<open>KeyError\<close>, which the handler turns into
  status 500.
\<close>

theorem vehicle_not_validated:
  assumes "passes_validation data" and "request_fields data = Inr rq"
    and "get_eco_route w (origin_coords rq) (destination_coords rq)
        (openrouteservice_api_key rq) = Some r"
    and "get_energy_data w (eia_api_key rq) = Some e"
    and "\<not> has_vehicle_profile (vehicle rq)"
  shows "fst (get_route_recommendation w data) = calls_through_emissions rq r
     \<and> status (snd (get_route_recommendation w data)) = 500
     \<and> payload (snd (get_route_recommendation w data)) \<in>
         {Internal_server_error TypeError, Internal_server_error KeyError}"
proof (rule resolved_pipeline [OF assms(1-4)], goal_cases)
  case (1 err)
  then show ?case using prompt_not_built by (auto simp: 1(2))
next
  case (2 p n)
  with assms(5) show ?case using prompt_built by blast
qed

theorem vehicle_not_validated_witness:
  "passes_validation (JObj (sample_members JNull sample_keys))
   \<and> \<not> has_vehicle_profile (vehicle (sample_fields JNull))
   \<and> fst (get_route_recommendation sample_world (JObj (sample_members JNull sample_keys))) =
       calls_through_emissions (sample_fields JNull) sample_route
   \<and> status (snd (get_route_recommendation sample_world
        (JObj (sample_members JNull sample_keys)))) = 500"
proof -
  let ?data = "JObj (sample_members JNull sample_keys)"
  let ?rq = "sample_fields JNull"
  have v: "passes_validation ?data" by (rule sample_passes_validation)
  have f: "request_fields ?data = Inr ?rq" by (rule sample_request_fields)
  have r: "get_eco_route sample_world (origin_coords ?rq) (destination_coords ?rq)
      (openrouteservice_api_key ?rq) = Some sample_route"
    by (rule sample_get_eco_route) simp
  have e: "get_energy_data sample_world (eia_api_key ?rq) =
      Some \<lparr>price_per_gallon = JStr ''3.5'', period = JStr ''2024-01-01''\<rparr>"
    by (rule sample_get_energy_data) simp
  have missing: "\<not> has_vehicle_profile (vehicle ?rq)"
    by (simp add: sample_fields_def has_vehicle_profile_def)
  from vehicle_not_validated [OF v f r e missing] v missing show ?thesis by simp
qed

text \<open>
  C3. Whenever the emissions adapter is called in a run and returns no result, the request
  is not aborted with a client error, and on a request that carries a vehicle profile the
  response has status 200 and its comparison reports, in the original branch, the
  distance the adapter was called with and that distance times 2.31 (one multiplication
  of Python floats) as the kilograms of carbon.
\<close>

theorem emissions_fallback:
  assumes "Emissions_call d key \<in> set (fst (get_route_recommendation w data))"
    and "calculate_emissions w d key = None"
  shows "status (snd (get_route_recommendation w data)) \<noteq> 400
     \<and> (\<forall>rq. request_fields data = Inr rq \<and> has_vehicle_profile (vehicle rq) \<longrightarrow>
          status (snd (get_route_recommendation w data)) = 200
          \<and> (\<exists>route dirs cmp rec.
               payload (snd (get_route_recommendation w data)) =
                 Result_payload route dirs cmp rec
               \<and> estimate_distance_km (original cmp) = d
               \<and> carbon_emissions_kg (original cmp) = float_mul d (float_lit 231 100)))"
proof -
  from assms(1) obtain rq r e where
    a: "passes_validation data" "request_fields data = Inr rq"
    "get_eco_route w (origin_coords rq) (destination_coords rq)
            (openrouteservice_api_key rq) = Some r"
    "get_energy_data w (eia_api_key rq) = Some e"
    and d: "d = distance_km r" "key = carbon_interface_api_key rq"
    by (rule emissions_call_resolved)
  have c: "resolved_emissions w (distance_km r) (carbon_interface_api_key rq) =
      fallback_emissions d"
    using assms(2) d by (simp add: resolved_emissions_def)
  show ?thesis
  proof (rule resolved_pipeline [OF a], goal_cases)
    case (1 err)
    then have "\<not> has_vehicle_profile (vehicle rq)"
      by (metis sum.distinct(1) prompt_built)
    then show ?case using a(2) by (simp add: 1(2))
  next
    case (2 p n)
    then show ?case using d by (simp add: c fallback_emissions_def)
  qed
qed

theorem emissions_fallback_witness:
  "Emissions_call (float_lit 559 1) (JStr ''c'') \<in> set (fst (get_route_recommendation
      no_emissions_world (JObj (sample_members sample_vehicle sample_keys))))
   \<and> calculate_emissions no_emissions_world (float_lit 559 1) (JStr ''c'') = None
   \<and> status (snd (get_route_recommendation no_emissions_world
        (JObj (sample_members sample_vehicle sample_keys)))) = 200
   \<and> (\<exists>route dirs cmp rec.
        payload (snd (get_route_recommendation no_emissions_world
          (JObj (sample_members sample_vehicle sample_keys)))) =
          Result_payload route dirs cmp rec
        \<and> carbon_emissions_kg (original cmp) = float_lit 129129 100)"
proof -
  let ?data = "JObj (sample_members sample_vehicle sample_keys)"
  have "Emissions_call (float_lit 559 1) (JStr ''c'') \<in>
      set (take 5 (fst (get_route_recommendation no_emissions_world ?data)))"
    by (simp add: sample_calls_through_emissions no_emissions_world_def
        calls_through_emissions_def sample_fields_def sample_route_def)
  then have called: "Emissions_call (float_lit 559 1) (JStr ''c'') \<in>
      set (fst (get_route_recommendation no_emissions_world ?data))"
    by (rule in_set_takeD)
  have failed: "calculate_emissions no_emissions_world (float_lit 559 1) (JStr ''c'') = None"
    unfolding no_emissions_world_def by (rule failed_calculate_emissions)
  have product: "float_mul (float_lit 559 1) (float_lit 231 100) = float_lit 129129 100"
    by (simp add: float_eval)
  have profile: "has_vehicle_profile (vehicle (sample_fields sample_vehicle))"
    by (simp add: sample_fields_def sample_vehicle_profile)
  from emissions_fallback [OF called failed] sample_request_fields [of sample_vehicle]
    profile called failed
  show ?thesis unfolding product by blast
qed

text \<open>
  C5. Whenever the recommendation adapter is called in a run and fails (the chat
  completion raises, or its reply cannot be read), the response has status 200, its
  recommendation is the text "Failed to generate recommendation." and its comparison
  carries the route's distance and duration, the resolved emissions, and the optimized
  estimate derived from them.
\<close>

theorem recommendation_failure_degrades:
  assumes "Recommendation_call p key \<in> set (fst (get_route_recommendation w data))"
    and "chat_reply w p key = None"
  shows "status (snd (get_route_recommendation w data)) = 200
     \<and> (\<exists>rq r n. request_fields data = Inr rq
          \<and> get_eco_route w (origin_coords rq) (destination_coords rq)
               (openrouteservice_api_key rq) = Some r
          \<and> and_then (int_mul_float (duration_minutes r) (float_lit 95 100)) py_round = Inr n
          \<and> payload (snd (get_route_recommendation w data)) =
              Result_payload (coordinates r) (directions r)
                \<lparr>original =
                   \<lparr>estimate_distance_km = distance_km r,
                    estimate_duration_minutes = duration_minutes r,
                    carbon_emissions_kg =
                      carbon_kg (resolved_emissions w (distance_km r)
                        (carbon_interface_api_key rq))\<rparr>,
                 optimized =
                   \<lparr>estimate_distance_km = distance_km r,
                    estimate_duration_minutes = n,
                    carbon_emissions_kg =
                      float_mul (carbon_kg (resolved_emissions w (distance_km r)
                        (carbon_interface_api_key rq))) (float_lit 9 10)\<rparr>\<rparr>
                ''Failed to generate recommendation.'')"
proof -
  have failed: "get_openai_recommendation w p key = ''Failed to generate recommendation.''"
    using assms(2) by (simp add: get_openai_recommendation_def)
  from assms(1) show ?thesis
  proof (rule recommendation_call_resolved, goal_cases)
    case (1 rq r e n)
    from 1(7) have "status (snd (get_route_recommendation w data)) = 200" by simp
    moreover from 1(7) have "payload (snd (get_route_recommendation w data)) =
        Result_payload (coordinates r) (directions r)
                \<lparr>original =
                   \<lparr>estimate_distance_km = distance_km r,
                    estimate_duration_minutes = duration_minutes r,
                    carbon_emissions_kg =
                      carbon_kg (resolved_emissions w (distance_km r)
                        (carbon_interface_api_key rq))\<rparr>,
                 optimized =
                   \<lparr>estimate_distance_km = distance_km r,
                    estimate_duration_minutes = n,
                    carbon_emissions_kg =
                      float_mul (carbon_kg (resolved_emissions w (distance_km r)
                        (carbon_interface_api_key rq))) (float_lit 9 10)\<rparr>\<rparr>
                ''Failed to generate recommendation.''"
      using failed by simp
    ultimately show ?case using 1(2,3,6) by blast
  qed
qed

theorem recommendation_failure_degrades_witness:
  "(\<exists>p. Recommendation_call p (JStr ''o'') \<in> set (fst (get_route_recommendation
        no_recommendation_world (JObj (sample_members sample_vehicle sample_keys))))
      \<and> chat_reply no_recommendation_world p (JStr ''o'') = None)
   \<and> status (snd (get_route_recommendation no_recommendation_world
        (JObj (sample_members sample_vehicle sample_keys)))) = 200
   \<and> (\<exists>route dirs cmp.
        payload (snd (get_route_recommendation no_recommendation_world
          (JObj (sample_members sample_vehicle sample_keys)))) =
          Result_payload route dirs cmp ''Failed to generate recommendation.'')"
proof -
  let ?data = "JObj (sample_members sample_vehicle sample_keys)"
  obtain p where called: "Recommendation_call p (JStr ''o'') \<in>
      set (fst (get_route_recommendation no_recommendation_world ?data))"
    using sample_recommendation_call [of no_recommendation_world]
    by (auto simp: no_recommendation_world_def)
  have failed: "chat_reply no_recommendation_world p (JStr ''o'') = None"
    unfolding no_recommendation_world_def by (rule failed_chat_reply)
  from recommendation_failure_degrades [OF called failed] called failed
  show ?thesis by blast
qed

text \<open>
  C7, as amended. An emissions result returned by the emissions service has
  \<open>carbon_kg = carbon_g / 1000\<close> exactly, by Python's true division, and the pipeline uses
  it as it is. The fallback sets \<open>carbon_g = distance_km * 2310\<close> and
  \<open>carbon_kg = distance_km * 2.31\<close>, two separate products of floats; these need not
  satisfy \<open>carbon_kg = carbon_g / 1000\<close>: for a route of 12300 m, that is 12.3 km, the
  fallback has \<open>carbon_kg = 28.413000000000004\<close> while \<open>carbon_g / 1000 = 28.413\<close>.
\<close>

theorem emissions_result_consistency:
  "(\<forall>em. calculate_emissions w d key = Some em \<longrightarrow>
        py_truediv (carbon_g em) 1000 = Inr (carbon_kg em)
        \<and> resolved_emissions w d key = em)
   \<and> (calculate_emissions w d key = None \<longrightarrow>
        resolved_emissions w d key =
          \<lparr>carbon_g = JFloat (float_mul d (float_lit 2310 1)),
           carbon_kg = float_mul d (float_lit 231 100)\<rparr>)"
  using service_emissions_consistent [of w d key]
  by (simp add: resolved_emissions_def fallback_emissions_def)

theorem emissions_result_consistency_witness:
  "calculate_emissions sample_world (float_lit 559 1) (JStr ''c'') =
     Some \<lparr>carbon_g = JInt 50000, carbon_kg = float_lit 50 1\<rparr>
   \<and> py_truediv (JInt 50000) 1000 = Inr (float_lit 50 1)
   \<and> calculate_emissions no_emissions_world (float_lit 559 1) (JStr ''c'') = None
   \<and> resolved_emissions no_emissions_world (float_lit 559 1) (JStr ''c'') =
       \<lparr>carbon_g = JFloat (float_mul (float_lit 559 1) (float_lit 2310 1)),
        carbon_kg = float_mul (float_lit 559 1) (float_lit 231 100)\<rparr>"
proof -
  have served: "calculate_emissions sample_world (float_lit 559 1) (JStr ''c'') =
     Some \<lparr>carbon_g = JInt 50000, carbon_kg = float_lit 50 1\<rparr>"
    by (rule sample_calculate_emissions) simp
  have failed: "calculate_emissions no_emissions_world (float_lit 559 1) (JStr ''c'') = None"
    unfolding no_emissions_world_def by (rule failed_calculate_emissions)
  from emissions_result_consistency [of sample_world "float_lit 559 1" "JStr ''c''"]
    emissions_result_consistency [of no_emissions_world "float_lit 559 1" "JStr ''c''"]
    served failed
  show ?thesis by simp
qed

theorem emissions_result_consistency_counterexample:
  "py_truediv (JInt 12300) 1000 = Inr (float_lit 123 10)
   \<and> calculate_emissions no_emissions_world (float_lit 123 10) (JStr ''c'') = None
   \<and> carbon_kg (resolved_emissions no_emissions_world (float_lit 123 10) (JStr ''c'')) =
       Finite False 7997548513279870 (- 48)
   \<and> py_truediv (carbon_g (resolved_emissions no_emissions_world (float_lit 123 10)
         (JStr ''c''))) 1000 =
       Inr (Finite False 7997548513279869 (- 48))
   \<and> py_truediv (carbon_g (resolved_emissions no_emissions_world (float_lit 123 10)
         (JStr ''c''))) 1000 \<noteq>
       Inr (carbon_kg (resolved_emissions no_emissions_world (float_lit 123 10) (JStr ''c'')))"
proof -
  have distance: "py_truediv (JInt 12300) 1000 = Inr (float_lit 123 10)"
    by (simp add: float_eval)
  have failed: "calculate_emissions no_emissions_world (float_lit 123 10) (JStr ''c'') = None"
    unfolding no_emissions_world_def by (rule failed_calculate_emissions)
  have kg: "carbon_kg (resolved_emissions no_emissions_world (float_lit 123 10) (JStr ''c'')) =
       Finite False 7997548513279870 (- 48)"
    unfolding no_emissions_resolved fallback_emissions_def by (simp add: float_eval)
  have g: "py_truediv (carbon_g (resolved_emissions no_emissions_world (float_lit 123 10)
         (JStr ''c''))) 1000 = Inr (Finite False 7997548513279869 (- 48))"
    unfolding no_emissions_resolved fallback_emissions_def by (simp add: float_eval)
  show ?thesis unfolding g kg using distance failed by simp
qed

text \<open>
  C9, as amended. The route adapter returns no result when the request coordinates cannot
  be swapped, when the upstream call raises, when the status is not 200, when the body is
  not JSON, and when the payload yields no first feature (no member \<open>features\<close>, an empty
  one, or one that cannot be indexed). On a payload with a first feature its result is
  what reading that feature gives, which is again no result whenever a read raises: a
  feature whose segment states no duration is enough. Whenever the adapter returns a
  route, its path is the upstream coordinate list with the two axes of every element
  swapped, so that a \<open>[lon, lat]\<close> pair becomes \<open>[lat, lon]\<close>.
\<close>

theorem route_adapter_outcomes:
  "(swap_axes origin = None \<or> swap_axes destination = None \<longrightarrow>
      get_eco_route w origin destination key = None)
   \<and> (\<forall>fo fd. swap_axes origin = Some fo \<and> swap_axes destination = Some fd \<longrightarrow>
        (ors_directions w key (directions_request fo fd) = None \<longrightarrow>
           get_eco_route w origin destination key = None)
        \<and> (\<forall>response. ors_directions w key (directions_request fo fd) = Some response \<longrightarrow>
             (status_code response \<noteq> 200 \<longrightarrow>
                get_eco_route w origin destination key = None)
             \<and> (status_code response = 200 \<and> json_body response = None \<longrightarrow>
                get_eco_route w origin destination key = None)
             \<and> (\<forall>route_json. status_code response = 200
                   \<and> json_body response = Some route_json \<longrightarrow>
                  (first_feature route_json = None \<longrightarrow>
                     get_eco_route w origin destination key = None)
                  \<and> (\<forall>f. first_feature route_json = Some f \<longrightarrow>
                       get_eco_route w origin destination key = route_of_feature f))))
   \<and> (\<forall>f r. route_of_feature f = Some r \<longrightarrow>
        (\<exists>geometry coords pairs.
           getitem_key f ''geometry'' = Inr geometry
           \<and> getitem_key geometry ''coordinates'' = Inr coords
           \<and> py_iter coords = Inr pairs
           \<and> those (map swap_axes pairs) = Some (coordinates r)))
   \<and> (\<forall>lon lat rest. swap_axes (JList (lon # lat # rest)) = Some (JList [lat, lon]))"
proof -
  have "get_eco_route w origin destination key = None"
    if "swap_axes origin = None \<or> swap_axes destination = None"
    using that unfolding get_eco_route_def by (auto split: Option.bind_splits)
  moreover have "\<forall>fo fd. swap_axes origin = Some fo \<and> swap_axes destination = Some fd \<longrightarrow>
        (ors_directions w key (directions_request fo fd) = None \<longrightarrow>
           get_eco_route w origin destination key = None)
        \<and> (\<forall>response. ors_directions w key (directions_request fo fd) = Some response \<longrightarrow>
             (status_code response \<noteq> 200 \<longrightarrow>
                get_eco_route w origin destination key = None)
             \<and> (status_code response = 200 \<and> json_body response = None \<longrightarrow>
                get_eco_route w origin destination key = None)
             \<and> (\<forall>route_json. status_code response = 200
                   \<and> json_body response = Some route_json \<longrightarrow>
                  (first_feature route_json = None \<longrightarrow>
                     get_eco_route w origin destination key = None)
                  \<and> (\<forall>f. first_feature route_json = Some f \<longrightarrow>
                       get_eco_route w origin destination key = route_of_feature f)))"
    by (auto simp: get_eco_route_unfold)
  ultimately show ?thesis
    using route_of_feature_path swap_axes_pair by blast
qed

theorem route_adapter_outcomes_witness:
  "swap_axes (JList [JInt 37, JInt (- 122)]) = Some (JList [JInt (- 122), JInt 37])
   \<and> swap_axes (JList [JInt 34, JInt (- 118)]) = Some (JList [JInt (- 118), JInt 34])
   \<and> ors_directions sample_world (JStr ''r'')
        (directions_request (JList [JInt (- 122), JInt 37]) (JList [JInt (- 118), JInt 34])) =
       Some \<lparr>status_code = 200, json_body = Some sample_route_json\<rparr>
   \<and> first_feature sample_route_json = Some sample_feature
   \<and> route_of_feature sample_feature = Some sample_route
   \<and> get_eco_route sample_world (JList [JInt 37, JInt (- 122)]) (JList [JInt 34, JInt (- 118)])
        (JStr ''r'') = Some sample_route
   \<and> coordinates sample_route = [JList [JInt 37, JInt (- 122)], JList [JInt 34, JInt (- 118)]]"
proof -
  have swaps: "swap_axes (JList [JInt 37, JInt (- 122)]) = Some (JList [JInt (- 122), JInt 37])"
    "swap_axes (JList [JInt 34, JInt (- 118)]) = Some (JList [JInt (- 118), JInt 34])"
    by (simp_all add: swap_axes_def)
  have answer: "ors_directions sample_world (JStr ''r'')
        (directions_request (JList [JInt (- 122), JInt 37]) (JList [JInt (- 118), JInt 34])) =
       Some \<lparr>status_code = 200, json_body = Some sample_route_json\<rparr>"
    by (simp add: sample_world_def)
  have feature: "first_feature sample_route_json = Some sample_feature"
    by (simp add: first_feature_def sample_route_json_def)
  have read: "route_of_feature sample_feature = Some sample_route"
    unfolding route_of_feature_def sample_feature_def sample_route_def swap_axes_def
      segment_instructions_def step_instructions_def
    by (simp add: float_eval)
  from route_adapter_outcomes [of "JList [JInt 37, JInt (- 122)]" "JList [JInt 34, JInt (- 118)]"
      sample_world "JStr ''r''"] swaps answer feature
  have "get_eco_route sample_world (JList [JInt 37, JInt (- 122)])
      (JList [JInt 34, JInt (- 118)]) (JStr ''r'') = route_of_feature sample_feature"
    by simp
  with swaps answer feature read show ?thesis by (simp add: sample_route_def)
qed

theorem route_adapter_outcomes_counterexample:
  "ors_directions no_duration_world (JStr ''r'')
      (directions_request (JList [JInt (- 122), JInt 37]) (JList [JInt (- 118), JInt 34])) =
     Some \<lparr>status_code = 200, json_body = Some no_duration_json\<rparr>
   \<and> first_feature no_duration_json \<noteq> None
   \<and> get_eco_route no_duration_world (JList [JInt 37, JInt (- 122)])
        (JList [JInt 34, JInt (- 118)]) (JStr ''r'') = None"
  unfolding get_eco_route_def route_of_feature_def first_feature_def no_duration_world_def
    no_duration_json_def swap_axes_def
  by simp

end
